theory Spec2Isabelle
  imports Complex_Main
begin

section \<open>JavaScript values\<close>

text \<open>
  The services exchange JSON request bodies and BSON documents. A value is one of the
  primitives, a \<open>Date\<close> (milliseconds since the epoch), an \<open>ObjectId\<close> (its 24 digit
  hexadecimal form), an array, or a plain object, kept as an association list in
  insertion order. A finite number is kept as the rational it denotes (every double is
  one, and what holds of every rational holds of every double); the two zeros are one
  value; the infinities and \<open>NaN\<close> stand beside them. Strings are ASCII. Objects are plain
  data: no key shadows a method of \<open>Object.prototype\<close>, and an object or array coming
  from one source (the request, a stored document) is never the same reference as one
  coming from another.
\<close>

datatype jsval =
    JUndef
  | JNull
  | JBool bool
  | JNum rat
  | JInf bool
  | JNaN
  | JStr string
  | JDate int
  | JOid string
  | JArr "jsval list"
  | JObj "(string \<times> jsval) list"

text \<open>\<open>!v\<close> is false exactly on the truthy values.\<close>

fun truthy :: "jsval \<Rightarrow> bool" where
  "truthy JUndef = False"
| "truthy JNull = False"
| "truthy (JBool b) = b"
| "truthy (JNum q) = (q \<noteq> 0)"
| "truthy (JInf negative) = True"
| "truthy JNaN = False"
| "truthy (JStr s) = (s \<noteq> [])"
| "truthy (JDate t) = True"
| "truthy (JOid h) = True"
| "truthy (JArr xs) = True"
| "truthy (JObj kvs) = True"

fun nullish :: "jsval \<Rightarrow> bool" where
  "nullish JUndef = True"
| "nullish JNull = True"
| "nullish v = False"

text \<open>\<open>a || b\<close>\<close>

definition js_or :: "jsval \<Rightarrow> jsval \<Rightarrow> jsval" where
  "js_or a b = (if truthy a then a else b)"

text \<open>
  \<open>v.k\<close> on a value that is neither \<open>null\<close> nor \<open>undefined\<close>. None of the property
  names the services read is a built-in property of a string, an array, a date or a
  number, so only a plain object answers with something other than \<open>undefined\<close>.
\<close>

fun getp :: "jsval \<Rightarrow> string \<Rightarrow> jsval" where
  "getp (JObj kvs) k = (case map_of kvs k of Some v \<Rightarrow> v | None \<Rightarrow> JUndef)"
| "getp v k = JUndef"

text \<open>\<open>v?.k\<close>\<close>

definition optchain :: "jsval \<Rightarrow> string \<Rightarrow> jsval" where
  "optchain v k = (if nullish v then JUndef else getp v k)"

text \<open>
  \<open>a === b\<close> between two values that are not the same object: primitives compare by
  value (\<open>NaN\<close> differs from itself), objects, arrays and dates by reference.
\<close>

fun strict_eq :: "jsval \<Rightarrow> jsval \<Rightarrow> bool" where
  "strict_eq JUndef JUndef = True"
| "strict_eq JNull JNull = True"
| "strict_eq (JBool a) (JBool b) = (a = b)"
| "strict_eq (JNum a) (JNum b) = (a = b)"
| "strict_eq (JInf a) (JInf b) = (a = b)"
| "strict_eq (JStr a) (JStr b) = (a = b)"
| "strict_eq a b = False"

text \<open>\<open>o.k = v\<close>: an existing key keeps its place, a new key goes last.\<close>

fun assign :: "(string \<times> jsval) list \<Rightarrow> string \<Rightarrow> jsval \<Rightarrow> (string \<times> jsval) list" where
  "assign [] k v = [(k, v)]"
| "assign ((k', v') # kvs) k v = (if k' = k then (k, v) # kvs else (k', v') # assign kvs k v)"

subsection \<open>Conversion to string\<close>

definition digit_char :: "nat \<Rightarrow> char" where
  "digit_char d = ''0123456789'' ! d"

fun digits :: "nat \<Rightarrow> string" where
  "digits n = (if n < 10 then [digit_char n] else digits (n div 10) @ [digit_char (n mod 10)])"

declare digits.simps [simp del]

fun join_comma :: "string list \<Rightarrow> string" where
  "join_comma [] = []"
| "join_comma [s] = s"
| "join_comma (s # t # ss) = s @ '','' @ join_comma (t # ss)"

text \<open>
  What the model leaves to the host: the text of a \<open>Date\<close>, which depends on the time
  zone (\<open>Date.prototype.toString\<close>); the text of a number that is not an integer of
  magnitude at most \<open>2^53\<close>, where \<open>Number::toString\<close> prints the shortest digits that
  read back as the same double and switches to exponent notation; and the double nearest
  an integer beyond \<open>2^53\<close>, \<open>None\<close> when it overflows to an infinity.
\<close>

record host =
  date_text :: "int \<Rightarrow> string"
  number_text :: "rat \<Rightarrow> string"
  number_value :: "int \<Rightarrow> rat option"

text \<open>
  The integers every one of which is a double, and whose text is their decimal digits.
\<close>

definition safe_integer :: "rat \<Rightarrow> bool" where
  "safe_integer q = (q = of_int \<lfloor>q\<rfloor> \<and> \<bar>q\<bar> \<le> 9007199254740992)"

definition int_text :: "int \<Rightarrow> string" where
  "int_text n = (if n < 0 then CHR ''-'' # digits (nat (- n)) else digits (nat n))"

text \<open>
  \<open>String(v)\<close>, which is also \<open>v.toString()\<close> where \<open>v\<close> is neither \<open>null\<close> nor \<open>undefined\<close>.
\<close>

fun ToString :: "host \<Rightarrow> jsval \<Rightarrow> string" where
  "ToString h JUndef = ''undefined''"
| "ToString h JNull = ''null''"
| "ToString h (JBool b) = (if b then ''true'' else ''false'')"
| "ToString h (JNum q) = (if safe_integer q then int_text \<lfloor>q\<rfloor> else number_text h q)"
| "ToString h (JInf negative) = (if negative then ''-Infinity'' else ''Infinity'')"
| "ToString h JNaN = ''NaN''"
| "ToString h (JStr s) = s"
| "ToString h (JDate t) = date_text h t"
| "ToString h (JOid x) = x"
| "ToString h (JArr xs) =
     join_comma (map (\<lambda>x. if x = JUndef \<or> x = JNull then [] else ToString h x) xs)"
| "ToString h (JObj kvs) = ''[object Object]''"

subsection \<open>parseInt\<close>

definition is_ws :: "char \<Rightarrow> bool" where
  "is_ws c = (c \<in> set [CHR '' '', CHR 0x09, CHR 0x0A, CHR 0x0B, CHR 0x0C, CHR 0x0D])"

definition digit_val :: "char \<Rightarrow> nat option" where
  "digit_val c =
     (let k = (of_char c :: nat) in
      if 48 \<le> k \<and> k \<le> 57 then Some (k - 48)
      else if 97 \<le> k \<and> k \<le> 122 then Some (k - 87)
      else if 65 \<le> k \<and> k \<le> 90 then Some (k - 55)
      else None)"

text \<open>The longest prefix of digits of the radix, as their values.\<close>

fun radix_digits :: "nat \<Rightarrow> string \<Rightarrow> nat list" where
  "radix_digits r [] = []"
| "radix_digits r (c # cs) =
     (case digit_val c of
        Some d \<Rightarrow> if d < r then d # radix_digits r cs else []
      | None \<Rightarrow> [])"

definition horner :: "nat \<Rightarrow> nat list \<Rightarrow> nat" where
  "horner r ds = foldl (\<lambda>a d. a * r + d) 0 ds"

fun strip_sign :: "string \<Rightarrow> bool \<times> string" where
  "strip_sign [] = (False, [])"
| "strip_sign (c # cs) =
     (if c = CHR ''-'' then (True, cs) else if c = CHR ''+'' then (False, cs) else (False, c # cs))"

fun strip_radix :: "string \<Rightarrow> nat \<times> string" where
  "strip_radix (a # b # cs) =
     (if a = CHR ''0'' \<and> (b = CHR ''x'' \<or> b = CHR ''X'') then (16, cs) else (10, a # b # cs))"
| "strip_radix s = (10, s)"

text \<open>
  The number for the integer \<open>n\<close> that the digits denote: \<open>n\<close> itself up to \<open>2^53\<close>, the
  nearest double beyond.
\<close>

definition number_of :: "host \<Rightarrow> int \<Rightarrow> jsval" where
  "number_of h n =
     (if \<bar>n\<bar> \<le> 9007199254740992 then JNum (of_int n)
      else case number_value h n of Some q \<Rightarrow> JNum q | None \<Rightarrow> JInf (n < 0))"

text \<open>\<open>parseInt(s)\<close> on a string, with no radix given.\<close>

definition parseInt_str :: "host \<Rightarrow> string \<Rightarrow> jsval" where
  "parseInt_str h s =
     (let (neg, s2) = strip_sign (dropWhile is_ws s);
          (r, s3) = strip_radix s2;
          ds = radix_digits r s3
      in if ds = [] then JNaN
         else number_of h ((if neg then - 1 else 1) * int (horner r ds)))"

text \<open>\<open>parseInt(v)\<close>: the argument is converted to a string first.\<close>

definition parseInt :: "host \<Rightarrow> jsval \<Rightarrow> jsval" where
  "parseInt h v = parseInt_str h (ToString h v)"

section \<open>Response normalizer\<close>

text \<open>
  \<open>{ ...v }\<close>: the own enumerable properties of a value. A plain object gives its
  entries, an array and a string give their elements under their indices, every other
  value gives none.
\<close>

fun own_props :: "jsval \<Rightarrow> (string \<times> jsval) list" where
  "own_props (JObj kvs) = kvs"
| "own_props (JArr xs) = zip (map digits [0..<length xs]) xs"
| "own_props (JStr s) = zip (map digits [0..<length s]) (map (\<lambda>c. JStr [c]) s)"
| "own_props v = []"

text \<open>
  \<^verbatim>\<open>
  function sanitizeMongoDoc(doc) {
    if (!doc) return doc;
    const sanitized = { ...doc };
    if (sanitized._id) sanitized._id = sanitized._id.toString();
    return sanitized;
  }
  \<close>
\<close>

definition sanitizeMongoDoc :: "host \<Rightarrow> jsval \<Rightarrow> jsval" where
  "sanitizeMongoDoc h doc =
     (if \<not> truthy doc then doc
      else let sanitized = own_props doc in
           if truthy (getp (JObj sanitized) ''_id'')
           then JObj (assign sanitized ''_id'' (JStr (ToString h (getp (JObj sanitized) ''_id''))))
           else JObj sanitized)"

section \<open>The document store\<close>

text \<open>
  The store is an external collaborator, used through \<open>findOne\<close> with an equality filter,
  a lower bound on a timestamp and a most-recent-first sort. An equality filter matches a
  field that equals the queried value or is an array holding it; a missing field counts
  as \<open>null\<close>. Query operators inside a queried value are not part of the model.
\<close>

definition norm_null :: "jsval \<Rightarrow> jsval" where
  "norm_null v = (if v = JUndef then JNull else v)"

definition mongo_eq :: "jsval \<Rightarrow> jsval \<Rightarrow> bool" where
  "mongo_eq v q =
     (norm_null v = norm_null q \<or>
      (case v of JArr xs \<Rightarrow> norm_null q \<in> set (map norm_null xs) | _ \<Rightarrow> False))"

text \<open>A dotted path such as \<open>spaces.devices.device_id\<close> descends through arrays of documents.\<close>

fun path_match :: "string list \<Rightarrow> jsval \<Rightarrow> jsval \<Rightarrow> bool" where
  "path_match [] v q = mongo_eq v q"
| "path_match (k # ks) v q =
     (case v of
        JObj kvs \<Rightarrow> path_match ks (getp v k) q
      | JArr xs \<Rightarrow> list_ex (\<lambda>x. case x of JObj kvs \<Rightarrow> path_match ks (getp x k) q | _ \<Rightarrow> False) xs
      | _ \<Rightarrow> nullish q)"

text \<open>\<open>findOne\<close> answers the first matching document, or \<open>null\<close>.\<close>

definition findOne :: "(jsval \<Rightarrow> bool) \<Rightarrow> jsval list \<Rightarrow> jsval" where
  "findOne P docs = (case find P docs of Some d \<Rightarrow> d | None \<Rightarrow> JNull)"

text \<open>
  The two collections the resolver reads. A query that rejects carries its error message;
  the connection handle itself is always there.
\<close>

record database =
  sensor_metadata :: "jsval list"
  sensor_metadata_error :: "string option"
  users :: "jsval list"
  users_error :: "string option"

section \<open>Identity resolver\<close>

text \<open>\<open>row.thingid || row.thingId || row.thing_id\<close>\<close>

definition row_thingid :: "jsval \<Rightarrow> jsval" where
  "row_thingid row = js_or (getp row ''thingid'') (js_or (getp row ''thingId'') (getp row ''thing_id''))"

text \<open>\<open>device.thing_name || device.thingid || device.thingId || device.thing_id\<close>\<close>

definition thing_name :: "jsval \<Rightarrow> jsval" where
  "thing_name device =
     js_or (getp device ''thing_name'')
       (js_or (getp device ''thingid'') (js_or (getp device ''thingId'') (getp device ''thing_id'')))"

text \<open>
  What one pass through a loop body does: return from the function, throw (the
  \<open>TypeError\<close> of reading a property of \<open>null\<close> or \<open>undefined\<close>, of iterating a value that
  is not iterable, or of calling what is not a function), or go on to the next element.
\<close>

datatype flow = Return jsval | Throw | Next

text \<open>What \<open>for (const x of v)\<close> iterates over.\<close>

datatype iteration = NotIterable | Items "jsval list"

fun iterate :: "jsval \<Rightarrow> iteration" where
  "iterate (JArr xs) = Items xs"
| "iterate (JStr s) = Items (map (\<lambda>c. JStr [c]) s)"
| "iterate v = NotIterable"

text \<open>
  \<open>devices.find((d) => d.device_id === parentDeviceId && d.device_type === "base")\<close>:
  the first such element, \<open>undefined\<close> when there is none, \<open>Inl\<close> when the callback throws.
\<close>

fun find_base :: "jsval \<Rightarrow> jsval list \<Rightarrow> unit + jsval" where
  "find_base parent [] = Inr JUndef"
| "find_base parent (d # ds) =
     (if nullish d then Inl ()
      else if strict_eq (getp d ''device_id'') parent \<and> strict_eq (getp d ''device_type'') (JStr ''base'')
      then Inr d
      else find_base parent ds)"

text \<open>The last step of the loop body, headed "Fallback for other device types".\<close>

definition fallback :: "jsval \<Rightarrow> flow" where
  "fallback device = (if truthy (thing_name device) then Return (thing_name device) else Next)"

text \<open>
  The body of the inner loop, lines 53 to 93 of the helper, for one \<open>device\<close> of
  \<open>space.devices\<close>.
\<close>

definition visit_device :: "jsval \<Rightarrow> jsval \<Rightarrow> jsval \<Rightarrow> flow" where
  "visit_device deviceid devices device =
     (if nullish device then Throw
      else if \<not> strict_eq (getp device ''device_id'') deviceid then Next
      else if strict_eq (getp device ''device_type'') (JStr ''base'') \<and> truthy (thing_name device)
      then Return (thing_name device)
      else if strict_eq (getp device ''device_type'') (JStr ''tank'')
      then (let parentDeviceId = getp device ''parent_device_id'' in
            if \<not> truthy parentDeviceId then Return JNull
            else case devices of
                   JArr ds \<Rightarrow>
                     (case find_base parentDeviceId ds of
                        Inl u \<Rightarrow> Throw
                      | Inr baseDevice \<Rightarrow>
                          if truthy baseDevice
                          then (if truthy (thing_name baseDevice) then Return (thing_name baseDevice)
                                else fallback device)
                          else fallback device)
                 | _ \<Rightarrow> Throw)
      else fallback device)"

fun scan_devices :: "jsval \<Rightarrow> jsval \<Rightarrow> jsval list \<Rightarrow> flow" where
  "scan_devices deviceid devices [] = Next"
| "scan_devices deviceid devices (device # rest) =
     (case visit_device deviceid devices device of
        Next \<Rightarrow> scan_devices deviceid devices rest
      | r \<Rightarrow> r)"

text \<open>The body of the outer loop for one \<open>space\<close>.\<close>

definition visit_space :: "jsval \<Rightarrow> jsval \<Rightarrow> flow" where
  "visit_space deviceid space =
     (if nullish space then Throw
      else if \<not> truthy (getp space ''devices'') then Next
      else case iterate (getp space ''devices'') of
             NotIterable \<Rightarrow> Throw
           | Items ds \<Rightarrow> scan_devices deviceid (getp space ''devices'') ds)"

fun scan_spaces :: "jsval \<Rightarrow> jsval list \<Rightarrow> flow" where
  "scan_spaces deviceid [] = Next"
| "scan_spaces deviceid (space # rest) =
     (case visit_space deviceid space of
        Next \<Rightarrow> scan_spaces deviceid rest
      | r \<Rightarrow> r)"

text \<open>Step 1: the \<open>sensor_metadata\<close> collection. \<open>None\<close>: go on to step 2.\<close>

definition lookup_sensor_metadata :: "database \<Rightarrow> jsval \<Rightarrow> jsval option" where
  "lookup_sensor_metadata db deviceid =
     (case sensor_metadata_error db of
        Some msg \<Rightarrow> None
      | None \<Rightarrow>
          (let row = findOne (\<lambda>d. mongo_eq (getp d ''deviceid'') deviceid) (sensor_metadata db) in
           if truthy row \<and> truthy (row_thingid row) then Some (row_thingid row) else None))"

text \<open>Step 2: users, their spaces, their devices.\<close>

definition search_users :: "database \<Rightarrow> jsval \<Rightarrow> flow" where
  "search_users db deviceid =
     (case users_error db of
        Some msg \<Rightarrow> Throw
      | None \<Rightarrow>
          (let userDoc = findOne (\<lambda>u. path_match [''spaces'', ''devices'', ''device_id''] u deviceid) (users db) in
           if truthy userDoc \<and> truthy (getp userDoc ''spaces'')
           then (case iterate (getp userDoc ''spaces'') of
                   NotIterable \<Rightarrow> Throw
                 | Items spaces \<Rightarrow> scan_spaces deviceid spaces)
           else Next))"

text \<open>
  \<open>getThingIdByDeviceId\<close>. Each step runs inside its own \<open>try\<close>: whatever is thrown in
  step 2 is logged and the function goes on to return \<open>null\<close>.
\<close>

definition getThingIdByDeviceId :: "database \<Rightarrow> jsval \<Rightarrow> jsval" where
  "getThingIdByDeviceId db deviceid =
     (if \<not> truthy deviceid then JNull
      else case lookup_sensor_metadata db deviceid of
             Some thingid \<Rightarrow> thingid
           | None \<Rightarrow>
               (case search_users db deviceid of
                  Return thingid \<Rightarrow> thingid
                | Throw \<Rightarrow> JNull
                | Next \<Rightarrow> JNull))"

section \<open>Response poller\<close>

text \<open>
  A collection as the poller meets it over time, in milliseconds since the epoch: what a
  query issued at an instant sees, whether it rejects (with which message), how long it
  takes to answer, and by how much a timer started at an instant fires late. The
  synchronous code between two suspensions takes no time.
\<close>

record store_clock =
  visible :: "int \<Rightarrow> jsval list"
  rejects :: "int \<Rightarrow> string option"
  latency :: "int \<Rightarrow> nat"
  overshoot :: "int \<Rightarrow> nat"

text \<open>
  The helper holds the same loop three times, for three shapes of reply; the shapes
  differ in the filter, the recency window, the cadence and the logged text.
\<close>

datatype shape = SlaveReply | AliveReply | SensorUpdate jsval

fun interval :: "shape \<Rightarrow> int" where
  "interval SlaveReply = 500"
| "interval AliveReply = 1000"
| "interval (SensorUpdate sensorNo) = 1000"

fun window :: "shape \<Rightarrow> int" where
  "window SlaveReply = 15000"
| "window AliveReply = 10000"
| "window (SensorUpdate sensorNo) = 10000"

fun time_field :: "shape \<Rightarrow> string" where
  "time_field SlaveReply = ''inserted_at''"
| "time_field AliveReply = ''timestamp''"
| "time_field (SensorUpdate sensorNo) = ''timestamp''"

fun error_prefix :: "shape \<Rightarrow> string" where
  "error_prefix SlaveReply = ''Error polling slave response: ''"
| "error_prefix AliveReply = ''Error checking base response: ''"
| "error_prefix (SensorUpdate sensorNo) = ''Error checking tank response: ''"

text \<open>\<open>{ $gte: since }\<close> against a date; a field of another type does not match.\<close>

definition date_gte :: "jsval \<Rightarrow> int \<Rightarrow> bool" where
  "date_gte v since = (case v of JDate t \<Rightarrow> since \<le> t | _ \<Rightarrow> False)"

text \<open>The three filters, with \<open>since\<close> the lower bound of the window.\<close>

fun matches :: "shape \<Rightarrow> jsval \<Rightarrow> int \<Rightarrow> jsval \<Rightarrow> bool" where
  "matches SlaveReply key since d =
     (mongo_eq (getp d ''thingid'') key \<and> date_gte (getp d ''inserted_at'') since \<and>
      mongo_eq (getp d ''response_type'') (JStr ''slave_response''))"
| "matches AliveReply key since d =
     (mongo_eq (getp d ''deviceid'') key \<and> mongo_eq (getp d ''message_type'') (JStr ''alive_reply'') \<and>
      date_gte (getp d ''timestamp'') since)"
| "matches (SensorUpdate sensorNo) key since d =
     (mongo_eq (getp d ''deviceid'') key \<and> mongo_eq (getp d ''sensor_no'') sensorNo \<and>
      mongo_eq (getp d ''message_type'') (JStr ''update'') \<and> date_gte (getp d ''timestamp'') since)"

definition time_of :: "string \<Rightarrow> jsval \<Rightarrow> int" where
  "time_of f d = (case getp d f of JDate t \<Rightarrow> t | _ \<Rightarrow> 0)"

text \<open>
  The head of the documents sorted by the field \<open>f\<close>, most recent first; among equally
  recent ones the first in the collection's order. \<open>null\<close> when there is none.
\<close>

fun latest :: "string \<Rightarrow> jsval list \<Rightarrow> jsval" where
  "latest f [] = JNull"
| "latest f (d # ds) =
     (let r = latest f ds in if truthy r \<and> time_of f d < time_of f r then r else d)"

text \<open>
  The \<open>findOne\<close> of one iteration, issued at \<open>now\<close>, with
  \<open>since = new Date(Date.now() - window)\<close>.
\<close>

definition query :: "store_clock \<Rightarrow> shape \<Rightarrow> jsval \<Rightarrow> int \<Rightarrow> string + jsval" where
  "query env sh key now =
     (case rejects env now of
        Some msg \<Rightarrow> Inl msg
      | None \<Rightarrow> Inr (latest (time_field sh) (filter (matches sh key (now - window sh)) (visible env now))))"

text \<open>When the loop condition is read next: after the answer and the timer.\<close>

definition next_poll :: "store_clock \<Rightarrow> shape \<Rightarrow> int \<Rightarrow> int" where
  "next_poll env sh now =
     (let answered = now + int (latency env now)
      in answered + interval sh + int (overshoot env answered))"

text \<open>
  What a run of the loop leaves behind: the document it returns (\<open>null\<close> on timeout), the
  instant it returns at, the instants at which it issued a query, and the lines it wrote
  with \<open>logger.error\<close>.
\<close>

record poll_result =
  found :: jsval
  finished :: int
  queried :: "int list"
  logged :: "string list"

text \<open>
  \<^verbatim>\<open>
  while (Date.now() - start < timeoutMs) {
    const since = new Date(Date.now() - 15000);
    try {
      const doc = await coll.findOne({...}, { sort: { inserted_at: -1 } });
      if (doc) { return doc; }
    } catch (err) {
      logger.error(`Error polling slave response: ${err.message}`);
    }
    await new Promise((resolve) => setTimeout(resolve, interval));
  }
  return null;
  \<close>
\<close>

function poll_loop :: "store_clock \<Rightarrow> shape \<Rightarrow> jsval \<Rightarrow> int \<Rightarrow> int \<Rightarrow> int \<Rightarrow> poll_result" where
  "poll_loop env sh key timeoutMs start now =
     (if now - start < timeoutMs
      then (case query env sh key now of
              Inr doc \<Rightarrow>
                if truthy doc
                then \<lparr>found = doc, finished = now + int (latency env now), queried = [now], logged = []\<rparr>
                else (let r = poll_loop env sh key timeoutMs start (next_poll env sh now)
                      in r\<lparr>queried := now # queried r\<rparr>)
            | Inl msg \<Rightarrow>
                (let r = poll_loop env sh key timeoutMs start (next_poll env sh now)
                 in r\<lparr>queried := now # queried r, logged := (error_prefix sh @ msg) # logged r\<rparr>))
      else \<lparr>found = JNull, finished = now, queried = [], logged = []\<rparr>)"
  by pat_completeness auto

termination
proof (relation "measure (\<lambda>(env, sh, key, timeoutMs, start, now). nat (start + timeoutMs - now))")
  show "wf (measure (\<lambda>(env, sh, key, timeoutMs, start, now). nat (start + timeoutMs - now)))"
    by simp
next
  fix env :: store_clock and sh key and timeoutMs start now :: int
  assume "now - start < timeoutMs"
  moreover have "0 < interval sh" by (cases sh) auto
  ultimately show "((env, sh, key, timeoutMs, start, next_poll env sh now),
                    (env, sh, key, timeoutMs, start, now))
        \<in> measure (\<lambda>(env, sh, key, timeoutMs, start, now). nat (start + timeoutMs - now))"
    by (simp add: next_poll_def Let_def)
  then show "((env, sh, key, timeoutMs, start, next_poll env sh now),
              (env, sh, key, timeoutMs, start, now))
        \<in> measure (\<lambda>(env, sh, key, timeoutMs, start, now). nat (start + timeoutMs - now))" .
qed

declare poll_loop.simps [simp del]

text \<open>The three exported pollers, entered at the instant \<open>start\<close>.\<close>

definition waitForSlaveResponseFromMongoDB :: "store_clock \<Rightarrow> jsval \<Rightarrow> int \<Rightarrow> int \<Rightarrow> jsval" where
  "waitForSlaveResponseFromMongoDB env thingid timeoutMs start =
     found (poll_loop env SlaveReply thingid timeoutMs start start)"

definition checkBaseRespondedInMongo :: "store_clock \<Rightarrow> jsval \<Rightarrow> int \<Rightarrow> int \<Rightarrow> bool" where
  "checkBaseRespondedInMongo env deviceid timeoutMs start =
     truthy (found (poll_loop env AliveReply deviceid timeoutMs start start))"

definition checkTankRespondedInMongo :: "store_clock \<Rightarrow> jsval \<Rightarrow> jsval \<Rightarrow> int \<Rightarrow> int \<Rightarrow> bool" where
  "checkTankRespondedInMongo env deviceid sensorNo timeoutMs start =
     truthy (found (poll_loop env (SensorUpdate sensorNo) deviceid timeoutMs start start))"

subsection \<open>Vocabulary for the poller's properties\<close>

text \<open>
  The same collection with every rejected query replaced by one that answers, and finds
  nothing.
\<close>

definition forgiving :: "store_clock \<Rightarrow> store_clock" where
  "forgiving env =
     env\<lparr> rejects := (\<lambda>t. None),
          visible := (\<lambda>t. case rejects env t of Some msg \<Rightarrow> [] | None \<Rightarrow> visible env t) \<rparr>"

text \<open>
  A query issued at \<open>t\<close> brings no document: it rejects, or nothing in the collection
  passes the filter with the window ending at \<open>t\<close>.
\<close>

definition unanswered :: "store_clock \<Rightarrow> shape \<Rightarrow> jsval \<Rightarrow> int \<Rightarrow> bool" where
  "unanswered env sh key t =
     (rejects env t \<noteq> None \<or> (\<forall>d \<in> set (visible env t). \<not> matches sh key (t - window sh) d))"

text \<open>The lines \<open>logger.error\<close> receives for the rejected ones among the queries.\<close>

definition error_lines :: "store_clock \<Rightarrow> shape \<Rightarrow> int list \<Rightarrow> string list" where
  "error_lines env sh ts =
     concat (map (\<lambda>t. case rejects env t of Some msg \<Rightarrow> [error_prefix sh @ msg] | None \<Rightarrow> []) ts)"

section \<open>Correlation orchestrator\<close>

text \<open>
  The collaborators of the control service. \<open>getTopic\<close> and \<open>publishToIoT\<close> live outside
  the two modules at hand: a topic derivation may throw (\<open>Inl\<close> its message), a publish
  may reject (\<open>Some\<close> its message). \<open>destructure_error\<close> is the message of the engine's
  \<open>TypeError\<close> when \<open>req.body\<close> is \<open>null\<close> or \<open>undefined\<close>; \<open>engine\<close> is the host of the
  conversions.
\<close>

record services =
  store :: database
  getTopic :: "string \<Rightarrow> jsval \<Rightarrow> string \<Rightarrow> string + jsval"
  publishToIoT :: "jsval \<Rightarrow> jsval \<Rightarrow> string option"
  device_responses :: store_clock
  engine :: host
  destructure_error :: "jsval \<Rightarrow> string"

text \<open>What a call did to the outside, in order.\<close>

datatype effect = Resolve jsval | Publish jsval jsval | Poll jsval int

text \<open>\<open>res.status(code).json(body)\<close>, with the body as handed to \<open>json\<close>.\<close>

datatype response = Response nat jsval

fun status_of :: "response \<Rightarrow> nat" where
  "status_of (Response code body) = code"

fun body_of :: "response \<Rightarrow> jsval" where
  "body_of (Response code body) = body"

text \<open>The \<open>catch\<close> block of a handler.\<close>

definition internal_error :: "string \<Rightarrow> response" where
  "internal_error msg = Response 500 (JObj [(''success'', JBool False), (''error'', JStr msg)])"

text \<open>The payload of a slave request, lines 104 to 118 of the control service.\<close>

definition slave_payload :: "host \<Rightarrow> jsval \<Rightarrow> jsval" where
  "slave_payload h body =
     (let payload =
        [(''deviceid'', getp body ''deviceid''),
         (''sensor_no'', getp body ''sensor_no''),
         (''mode'', js_or (parseInt h (getp body ''mode'')) (JNum 3)),
         (''channel'', parseInt h (getp body ''channel'')),
         (''address_l'', getp body ''address_l''),
         (''address_h'', getp body ''address_h''),
         (''range'', parseInt h (getp body ''range'')),
         (''capacity'', parseInt h (getp body ''capacity''))]
      in if truthy (getp body ''slaveid'')
         then JObj (assign payload ''slaveid'' (getp body ''slaveid''))
         else JObj payload)"

text \<open>The \<open>data\<close> of the answer when a reply was found, lines 132 to 144.\<close>

definition reply_data :: "host \<Rightarrow> jsval \<Rightarrow> jsval \<Rightarrow> jsval" where
  "reply_data h body response =
     (let response_data = getp response ''response_data'' in
      JObj
        [(''status'', js_or (optchain response_data ''status'') (JStr ''success'')),
         (''deviceid'', getp response ''deviceid''),
         (''thingid'', getp response ''thingid''),
         (''channel'',
            if truthy (optchain response_data ''channel'')
            then parseInt h (getp response_data ''channel'')
            else parseInt h (getp body ''channel'')),
         (''address_l'', js_or (optchain response_data ''address_l'') (getp body ''address_l'')),
         (''address_h'', js_or (optchain response_data ''address_h'') (getp body ''address_h'')),
         (''sensor_no'', js_or (optchain response_data ''sensor_no'') (getp body ''sensor_no'')),
         (''slaveid'', optchain response_data ''slaveid''),
         (''timestamp'', getp response ''inserted_at'')])"

text \<open>
  \<open>slaveRequest(req, res)\<close> on \<open>req.body\<close>; \<open>now\<close> is the instant at which the poll is
  entered. The answer comes with the effects of the call.
\<close>

definition slaveRequest :: "services \<Rightarrow> jsval \<Rightarrow> int \<Rightarrow> response \<times> effect list" where
  "slaveRequest sv body now =
     (if nullish body then (internal_error (destructure_error sv body), [])
      else let deviceid = getp body ''deviceid''; sensor_no = getp body ''sensor_no'' in
        if \<not> truthy deviceid \<or> \<not> truthy sensor_no
        then (Response 400 (JObj [(''success'', JBool False),
                                  (''error'', JStr ''Missing deviceid or sensor_no'')]), [])
        else let thingid = getThingIdByDeviceId (store sv) deviceid in
          if \<not> truthy thingid
          then (Response 404 (JObj [(''success'', JBool False),
                                    (''error'', JStr ''DeviceId not found or no associated thing ID'')]),
                [Resolve deviceid])
          else case getTopic sv ''slaveRequest'' thingid ''slaveRequest'' of
                 Inl msg \<Rightarrow> (internal_error msg, [Resolve deviceid])
               | Inr topic \<Rightarrow>
                   (let payload = slave_payload (engine sv) body in
                    case publishToIoT sv topic payload of
                      Some msg \<Rightarrow> (internal_error msg, [Resolve deviceid, Publish topic payload])
                    | None \<Rightarrow>
                        (let response = waitForSlaveResponseFromMongoDB (device_responses sv) thingid 10000 now in
                         (if truthy response
                          then Response 200 (JObj [(''success'', JBool True),
                                                   (''message'', JStr ''Published and response received''),
                                                   (''data'', reply_data (engine sv) body response)])
                          else Response 200 (JObj [(''success'', JBool True),
                                                   (''message'', JStr ''Published but no response received''),
                                                   (''data'', JNull)]),
                          [Resolve deviceid, Publish topic payload, Poll thingid 10000]))))"

text \<open>
  \<open>setting(deviceid, payload)\<close>: \<open>Inl\<close> is the message of the \<open>Error\<close> it throws, \<open>Inr\<close>
  the value it returns. The \<open>throw\<close> of line 59 sits inside the \<open>try\<close> whose \<open>catch\<close>
  rethrows with the prefix of line 68.
\<close>

definition setting :: "services \<Rightarrow> jsval \<Rightarrow> jsval \<Rightarrow> (string + jsval) \<times> effect list" where
  "setting sv deviceid payload =
     (let thingid = getThingIdByDeviceId (store sv) deviceid in
      if \<not> truthy thingid
      then (Inl (''MQTT Publish Failed: '' @ ''No thingid found for deviceid: '' @ ToString (engine sv) deviceid),
            [Resolve deviceid])
      else case getTopic sv ''setting'' thingid ''setting'' of
             Inl msg \<Rightarrow> (Inl (''MQTT Publish Failed: '' @ msg), [Resolve deviceid])
           | Inr topic \<Rightarrow>
               (case publishToIoT sv topic payload of
                  Some msg \<Rightarrow> (Inl (''MQTT Publish Failed: '' @ msg), [Resolve deviceid, Publish topic payload])
                | None \<Rightarrow> (Inr (JObj [(''success'', JBool True), (''topic'', topic)]),
                            [Resolve deviceid, Publish topic payload])))"

section \<open>Example data\<close>

text \<open>
  Three states of the store. In the first, the tank \<open>D1\<close> hangs below the base \<open>D0\<close>,
  whose thing name is \<open>T0\<close>, and the alternate mapping knows another device. In the second
  the parent of the tank is itself a tank. In the third the parent is missing, and a
  second space holds another record under the same device id.
\<close>

definition db_scenario :: database where
  "db_scenario =
     \<lparr> sensor_metadata = [JObj [(''deviceid'', JStr ''D9''), (''thingId'', JStr ''T9'')]],
       sensor_metadata_error = None,
       users = [JObj [(''spaces'', JArr [JObj [(''devices'', JArr [
          JObj [(''device_id'', JStr ''D1''), (''device_type'', JStr ''tank''), (''parent_device_id'', JStr ''D0'')],
          JObj [(''device_id'', JStr ''D0''), (''device_type'', JStr ''base''), (''thing_name'', JStr ''T0'')]])]])]],
       users_error = None \<rparr>"

definition db_orphan :: database where
  "db_orphan =
     \<lparr> sensor_metadata = [], sensor_metadata_error = None,
       users = [JObj [(''spaces'', JArr [JObj [(''devices'', JArr [
          JObj [(''device_id'', JStr ''D1''), (''device_type'', JStr ''tank''), (''parent_device_id'', JStr ''D0''),
                (''thing_name'', JStr ''TX'')],
          JObj [(''device_id'', JStr ''D0''), (''device_type'', JStr ''tank''), (''thing_name'', JStr ''T0'')]])]])]],
       users_error = None \<rparr>"

definition db_missing :: database where
  "db_missing =
     \<lparr> sensor_metadata = [], sensor_metadata_error = None,
       users = [JObj [(''spaces'', JArr [
          JObj [(''devices'', JArr [
            JObj [(''device_id'', JStr ''D1''), (''device_type'', JStr ''tank''), (''parent_device_id'', JStr ''D0'')]])],
          JObj [(''devices'', JArr [
            JObj [(''device_id'', JStr ''D1''), (''device_type'', JStr ''valve''), (''thing_name'', JStr ''TY'')]])]])]],
       users_error = None \<rparr>"

text \<open>
  Collections of replies over time: a reply that arrives 9700 ms after the start; two
  replies, the store rejecting queries before the instant 1500; the same with a store
  that always rejects; a single reply that lacks a slave id.
\<close>

definition late_doc :: jsval where
  "late_doc = JObj [(''thingid'', JStr ''T0''), (''inserted_at'', JDate 9700),
                    (''response_type'', JStr ''slave_response'')]"

definition env_late :: store_clock where
  "env_late = \<lparr> visible = (\<lambda>t. if 9700 \<le> t then [late_doc] else []),
                rejects = (\<lambda>t. None), latency = (\<lambda>t. 0), overshoot = (\<lambda>t. 0) \<rparr>"

definition old_doc :: jsval where
  "old_doc = JObj [(''thingid'', JStr ''T0''), (''inserted_at'', JDate 100),
                   (''response_type'', JStr ''slave_response'')]"

definition new_doc :: jsval where
  "new_doc = JObj [(''thingid'', JStr ''T0''), (''inserted_at'', JDate 300),
                   (''response_type'', JStr ''slave_response'')]"

definition env_two :: store_clock where
  "env_two = \<lparr> visible = (\<lambda>t. [old_doc, new_doc]),
               rejects = (\<lambda>t. if t < 1500 then Some ''down'' else None),
               latency = (\<lambda>t. 20), overshoot = (\<lambda>t. 0) \<rparr>"

definition env_down :: store_clock where
  "env_down = \<lparr> visible = (\<lambda>t. [old_doc, new_doc]),
                rejects = (\<lambda>t. Some ''down''), latency = (\<lambda>t. 0), overshoot = (\<lambda>t. 0) \<rparr>"

definition reply_doc :: jsval where
  "reply_doc = JObj [(''thingid'', JStr ''T0''), (''deviceid'', JStr ''D0''), (''inserted_at'', JDate 100),
                     (''response_type'', JStr ''slave_response''),
                     (''response_data'', JObj [(''status'', JStr ''ok''), (''channel'', JStr ''2'')])]"

definition env_reply :: store_clock where
  "env_reply = \<lparr> visible = (\<lambda>t. [reply_doc]), rejects = (\<lambda>t. None),
                 latency = (\<lambda>t. 0), overshoot = (\<lambda>t. 0) \<rparr>"

text \<open>A host whose answers do not matter for the numbers and documents below.\<close>

definition host_example :: host where
  "host_example = \<lparr> date_text = (\<lambda>t. ''date''), number_text = (\<lambda>q. ''number''), number_value = (\<lambda>n. None) \<rparr>"

text \<open>
  A host that writes every number it is asked about as \<open>1e+21\<close>, which is JavaScript's
  text of \<open>10^21\<close>, and a request whose mode is that number.
\<close>

definition host_exponent :: host where
  "host_exponent = host_example\<lparr> number_text := (\<lambda>q. ''1e+21'') \<rparr>"

definition body_huge :: jsval where
  "body_huge = JObj [(''deviceid'', JStr ''D1''), (''sensor_no'', JNum 1), (''mode'', JNum 1000000000000000000000)]"

text \<open>
  The services around the first store, with a publish that succeeds, one that fails, a
  topic that cannot be derived, and a store of replies that never answers; and two
  request bodies.
\<close>

definition sv_example :: services where
  "sv_example =
     \<lparr> store = db_scenario,
       getTopic = (\<lambda>kind thing purpose. Inr (JStr (''things/'' @ ToString host_example thing @ ''/'' @ purpose))),
       publishToIoT = (\<lambda>topic payload. None),
       device_responses = env_reply,
       engine = host_example,
       destructure_error = (\<lambda>v. ''TypeError'') \<rparr>"

definition sv_offline :: services where
  "sv_offline = sv_example\<lparr> publishToIoT := (\<lambda>topic payload. Some ''broker unreachable'') \<rparr>"

definition sv_untitled :: services where
  "sv_untitled = sv_example\<lparr> getTopic := (\<lambda>kind thing purpose. Inl ''no topic'') \<rparr>"

definition sv_silent :: services where
  "sv_silent = sv_example\<lparr> device_responses := env_down \<rparr>"

definition body_example :: jsval where
  "body_example =
     JObj [(''deviceid'', JStr ''D1''), (''sensor_no'', JNum 1), (''mode'', JNum 0), (''channel'', JNum 5),
           (''address_l'', JNum 16), (''address_h'', JNum 0), (''range'', JNum 100), (''capacity'', JNum 500),
           (''slaveid'', JNum 7)]"

definition body_plain :: jsval where
  "body_plain =
     JObj [(''deviceid'', JStr ''D1''), (''sensor_no'', JStr ''2''), (''mode'', JNum 2), (''channel'', JStr ''5''),
           (''address_l'', JNum 16), (''address_h'', JNum 0), (''range'', JStr ''100''), (''capacity'', JNum 500)]"

section \<open>Properties of the normalizer\<close>

lemma map_of_assign: "map_of (assign kvs k v) = (map_of kvs)(k \<mapsto> v)"
  by (induction kvs) auto

lemma assign_same: "map_of kvs k = Some v \<Longrightarrow> assign kvs k v = kvs"
  by (induction kvs) (auto split: if_splits)

lemma getp_assign: "getp (JObj (assign kvs k v)) k' = (if k' = k then v else getp (JObj kvs) k')"
  by (simp add: map_of_assign)

lemma sanitize_obj_fixed:
  assumes "getp (JObj kvs) ''_id'' = JStr s"
  shows "sanitizeMongoDoc h (JObj kvs) = JObj kvs"
proof (cases "s = []")
  case True
  with assms show ?thesis by (simp add: sanitizeMongoDoc_def)
next
  case False
  from assms have "map_of kvs ''_id'' = Some (JStr s)"
    by (simp split: option.splits)
  then have "assign kvs ''_id'' (JStr s) = kvs" by (rule assign_same)
  with assms False show ?thesis by (simp add: sanitizeMongoDoc_def)
qed

lemma sanitize_falsy_id:
  "\<not> truthy (getp (JObj kvs) ''_id'') \<Longrightarrow> sanitizeMongoDoc h (JObj kvs) = JObj kvs"
  by (simp add: sanitizeMongoDoc_def)

lemma sanitize_idem: "sanitizeMongoDoc h (sanitizeMongoDoc h doc) = sanitizeMongoDoc h doc"
proof (cases "truthy doc")
  case False
  then show ?thesis by (simp add: sanitizeMongoDoc_def)
next
  case True
  show ?thesis
  proof (cases "truthy (getp (JObj (own_props doc)) ''_id'')")
    case False
    with True have "sanitizeMongoDoc h doc = JObj (own_props doc)"
      by (simp add: sanitizeMongoDoc_def)
    with False show ?thesis by (simp add: sanitize_falsy_id)
  next
    case t: True
    let ?s = "ToString h (getp (JObj (own_props doc)) ''_id'')"
    from True t have eq: "sanitizeMongoDoc h doc = JObj (assign (own_props doc) ''_id'' (JStr ?s))"
      by (simp add: sanitizeMongoDoc_def Let_def)
    have "getp (JObj (assign (own_props doc) ''_id'' (JStr ?s))) ''_id'' = JStr ?s"
      by (simp only: getp_assign refl if_True)
    then show ?thesis unfolding eq by (rule sanitize_obj_fixed)
  qed
qed

text \<open>
  C9. Normalizing is idempotent: a second application changes nothing. A document whose
  \<open>_id\<close> is already a string is returned as an equal document, and every field other than
  \<open>_id\<close> of any document is passed through unchanged.
\<close>

theorem C9_normalize_idempotent:
  "sanitizeMongoDoc h (sanitizeMongoDoc h doc) = sanitizeMongoDoc h doc
   \<and> (getp (JObj kvs) ''_id'' = JStr s \<longrightarrow> sanitizeMongoDoc h (JObj kvs) = JObj kvs)
   \<and> (k \<noteq> ''_id'' \<longrightarrow> getp (sanitizeMongoDoc h (JObj kvs)) k = getp (JObj kvs) k)
   \<and> map fst (own_props (sanitizeMongoDoc h (JObj kvs))) = map fst kvs"
proof (intro conjI impI)
  show "sanitizeMongoDoc h (sanitizeMongoDoc h doc) = sanitizeMongoDoc h doc"
    by (rule sanitize_idem)
next
  assume "getp (JObj kvs) ''_id'' = JStr s"
  then show "sanitizeMongoDoc h (JObj kvs) = JObj kvs" by (rule sanitize_obj_fixed)
next
  assume "k \<noteq> ''_id''"
  then show "getp (sanitizeMongoDoc h (JObj kvs)) k = getp (JObj kvs) k"
    by (simp add: sanitizeMongoDoc_def map_of_assign)
next
  have "truthy (getp (JObj kvs) ''_id'') \<Longrightarrow> map fst (assign kvs ''_id'' v) = map fst kvs" for v
    by (induction kvs) (auto split: if_splits option.splits)
  then show "map fst (own_props (sanitizeMongoDoc h (JObj kvs))) = map fst kvs"
    by (simp add: sanitizeMongoDoc_def)
qed

theorem C9_normalize_idempotent_witness:
  "sanitizeMongoDoc host_example (JObj [(''_id'', JOid ''64ab''), (''thingid'', JStr ''T0'')])
     = JObj [(''_id'', JStr ''64ab''), (''thingid'', JStr ''T0'')]
   \<and> getp (JObj [(''_id'', JStr ''64ab''), (''thingid'', JStr ''T0'')]) ''_id'' = JStr ''64ab''
   \<and> sanitizeMongoDoc host_example (JObj [(''_id'', JStr ''64ab''), (''thingid'', JStr ''T0'')])
     = JObj [(''_id'', JStr ''64ab''), (''thingid'', JStr ''T0'')]
   \<and> ''thingid'' \<noteq> ''_id''
   \<and> getp (sanitizeMongoDoc host_example (JObj [(''_id'', JStr ''64ab''), (''thingid'', JStr ''T0'')])) ''thingid''
     = JStr ''T0''"
  using C9_normalize_idempotent [of host_example "JObj [(''_id'', JOid ''64ab''), (''thingid'', JStr ''T0'')]"
      "[(''_id'', JStr ''64ab''), (''thingid'', JStr ''T0'')]" "''64ab''" "''thingid''"]
  by (simp add: sanitizeMongoDoc_def)

section \<open>Properties of the resolver\<close>

lemmas resolver_defs = getThingIdByDeviceId_def lookup_sensor_metadata_def findOne_def search_users_def
      mongo_eq_def norm_null_def visit_space_def visit_device_def thing_name_def row_thingid_def js_or_def fallback_def










text \<open>
  C3. A tank whose parent is not a base of its space is not answered with \<open>null\<close>: the
  loop body falls through to the step meant for other device types and returns the
  tank's own thing name, or goes on to a later record with the same device id.
\<close>

theorem C3_unresolvable_parent_falls_through:
  "getThingIdByDeviceId db_orphan (JStr ''D1'') = JStr ''TX''
   \<and> getThingIdByDeviceId db_missing (JStr ''D1'') = JStr ''TY''"
  by (simp add: db_orphan_def db_missing_def resolver_defs)

section \<open>Properties of the poller\<close>

lemma matches_truthy: "matches sh key since d \<Longrightarrow> truthy d"
  by (cases sh; cases d) (auto simp: date_gte_def)

lemma latest_mem: "latest f ds = JNull \<or> latest f ds \<in> set ds"
  by (induction ds) (auto simp: Let_def)

lemma latest_truthy: "\<forall>d \<in> set ds. truthy d \<Longrightarrow> ds \<noteq> [] \<Longrightarrow> truthy (latest f ds)"
  by (induction ds) (auto simp: Let_def)

lemma latest_max: "\<forall>d \<in> set ds. truthy d \<Longrightarrow> d \<in> set ds \<Longrightarrow> time_of f d \<le> time_of f (latest f ds)"
proof (induction ds)
  case Nil
  then show ?case by simp
next
  case (Cons a ds)
  show ?case
  proof (cases "ds = []")
    case True
    with Cons.prems show ?thesis by simp
  next
    case False
    with Cons.prems have t: "truthy (latest f ds)" by (simp add: latest_truthy)
    from Cons show ?thesis using t by (auto simp: Let_def)
  qed
qed

lemma query_forgiving:
  "query (forgiving env) sh key now =
     (case rejects env now of Some msg \<Rightarrow> Inr JNull | None \<Rightarrow> query env sh key now)"
  by (simp add: query_def forgiving_def split: option.splits)

lemma latency_forgiving: "latency (forgiving env) = latency env"
  by (simp add: forgiving_def)

lemma next_poll_forgiving: "next_poll (forgiving env) sh now = next_poll env sh now"
  by (simp add: next_poll_def forgiving_def)

lemma query_answer:
  "query env sh key now = Inr doc \<Longrightarrow>
     rejects env now = None \<and>
     doc = latest (time_field sh) (filter (matches sh key (now - window sh)) (visible env now))"
  by (auto simp: query_def split: option.splits)

lemma query_found:
  assumes "query env sh key now = Inr doc" "truthy doc"
  shows "rejects env now = None \<and> doc \<in> set (visible env now) \<and> matches sh key (now - window sh) doc
     \<and> (\<forall>d \<in> set (visible env now). matches sh key (now - window sh) d
           \<longrightarrow> time_of (time_field sh) d \<le> time_of (time_field sh) doc)"
proof -
  let ?ms = "filter (matches sh key (now - window sh)) (visible env now)"
  from assms(1) have r: "rejects env now = None" and d: "doc = latest (time_field sh) ?ms"
    using query_answer by blast+
  have all: "\<forall>d \<in> set ?ms. truthy d" using matches_truthy by auto
  from d assms(2) latest_mem [of "time_field sh" ?ms] have mem: "doc \<in> set ?ms" by auto
  have "time_of (time_field sh) d' \<le> time_of (time_field sh) doc" if "d' \<in> set ?ms" for d'
    using latest_max [OF all that] d by simp
  with r mem show ?thesis by simp
qed

lemma query_nothing:
  assumes "query env sh key now = Inr doc" "\<not> truthy doc"
  shows "rejects env now = None \<and> (\<forall>d \<in> set (visible env now). \<not> matches sh key (now - window sh) d)"
proof -
  let ?ms = "filter (matches sh key (now - window sh)) (visible env now)"
  from assms(1) have r: "rejects env now = None" and d: "doc = latest (time_field sh) ?ms"
    using query_answer by blast+
  have all: "\<forall>d \<in> set ?ms. truthy d" using matches_truthy by auto
  have "?ms = []"
  proof (rule ccontr)
    assume "?ms \<noteq> []"
    with all have "truthy (latest (time_field sh) ?ms)" by (rule latest_truthy)
    with d assms(2) show False by simp
  qed
  with r show ?thesis by (simp add: filter_empty_conv)
qed

lemma query_rejected: "query env sh key now = Inl msg \<Longrightarrow> rejects env now = Some msg"
  by (auto simp: query_def split: option.splits)

lemma poll_found_or_null:
  "found (poll_loop env sh key timeoutMs start now) = JNull \<or> truthy (found (poll_loop env sh key timeoutMs start now))"
proof (induction env sh key timeoutMs start now rule: poll_loop.induct)
  case (1 env sh key timeoutMs start now)
  then show ?case
    by (subst (1 2) poll_loop.simps) (auto simp: Let_def split: sum.splits)
qed

lemma poll_forgiving:
  "found (poll_loop (forgiving env) sh key timeoutMs start now) = found (poll_loop env sh key timeoutMs start now)
   \<and> finished (poll_loop (forgiving env) sh key timeoutMs start now) = finished (poll_loop env sh key timeoutMs start now)
   \<and> queried (poll_loop (forgiving env) sh key timeoutMs start now) = queried (poll_loop env sh key timeoutMs start now)"
proof (induction env sh key timeoutMs start now rule: poll_loop.induct)
  case (1 env sh key timeoutMs start now)
  show ?case
  proof (cases "now - start < timeoutMs")
    case False
    then show ?thesis by (simp add: poll_loop.simps)
  next
    case True
    show ?thesis
    proof (cases "query env sh key now")
      case (Inl msg)
      then have "rejects env now = Some msg" by (rule query_rejected)
      then have "query (forgiving env) sh key now = Inr JNull" by (simp add: query_forgiving)
      with True Inl 1 show ?thesis
        by (subst (1 2 3) poll_loop.simps [of "forgiving env"], subst (1 2 3) poll_loop.simps [of env])
           (simp add: Let_def next_poll_forgiving)
    next
      case (Inr doc)
      then have "rejects env now = None" by (auto simp: query_def split: option.splits)
      with Inr have q: "query (forgiving env) sh key now = Inr doc" by (simp add: query_forgiving)
      show ?thesis
      proof (cases "truthy doc")
        case t: True
        with True Inr q show ?thesis
          by (subst (1 2 3) poll_loop.simps [of "forgiving env"], subst (1 2 3) poll_loop.simps [of env])
             (simp add: latency_forgiving)
      next
        case f: False
        with True Inr q 1 show ?thesis
          by (subst (1 2 3) poll_loop.simps [of "forgiving env"], subst (1 2 3) poll_loop.simps [of env])
             (simp add: Let_def next_poll_forgiving)
      qed
    qed
  qed
qed


lemma poll_stop:
  "\<not> now - start < timeoutMs \<Longrightarrow>
     poll_loop env sh key timeoutMs start now = \<lparr>found = JNull, finished = now, queried = [], logged = []\<rparr>"
  by (subst poll_loop.simps) simp

lemma poll_hit:
  "now - start < timeoutMs \<Longrightarrow> query env sh key now = Inr doc \<Longrightarrow> truthy doc \<Longrightarrow>
     poll_loop env sh key timeoutMs start now =
       \<lparr>found = doc, finished = now + int (latency env now), queried = [now], logged = []\<rparr>"
  by (subst poll_loop.simps) simp

lemma poll_miss:
  "now - start < timeoutMs \<Longrightarrow> query env sh key now = Inr doc \<Longrightarrow> \<not> truthy doc \<Longrightarrow>
     poll_loop env sh key timeoutMs start now =
       (poll_loop env sh key timeoutMs start (next_poll env sh now))
         \<lparr>queried := now # queried (poll_loop env sh key timeoutMs start (next_poll env sh now))\<rparr>"
  by (subst poll_loop.simps) (simp add: Let_def)

lemma poll_err:
  "now - start < timeoutMs \<Longrightarrow> query env sh key now = Inl msg \<Longrightarrow>
     poll_loop env sh key timeoutMs start now =
       (poll_loop env sh key timeoutMs start (next_poll env sh now))
         \<lparr>queried := now # queried (poll_loop env sh key timeoutMs start (next_poll env sh now)),
          logged := (error_prefix sh @ msg) # logged (poll_loop env sh key timeoutMs start (next_poll env sh now))\<rparr>"
  by (subst poll_loop.simps) (simp add: Let_def)

lemma poll_cases [consumes 0, case_names stop hit miss err]:
  assumes "\<not> now - start < timeoutMs \<Longrightarrow> P"
    and "\<And>doc. now - start < timeoutMs \<Longrightarrow> query env sh key now = Inr doc \<Longrightarrow> truthy doc \<Longrightarrow> P"
    and "\<And>doc. now - start < timeoutMs \<Longrightarrow> query env sh key now = Inr doc \<Longrightarrow> \<not> truthy doc \<Longrightarrow> P"
    and "\<And>msg. now - start < timeoutMs \<Longrightarrow> query env sh key now = Inl msg \<Longrightarrow> P"
  shows P
  using assms by (cases "now - start < timeoutMs"; cases "query env sh key now") auto

lemma next_poll_later: "now < next_poll env sh now"
proof -
  have "0 < interval sh" by (cases sh) auto
  then show ?thesis by (simp add: next_poll_def Let_def)
qed

lemma poll_logged:
  "logged (poll_loop env sh key timeoutMs start now)
     = error_lines env sh (queried (poll_loop env sh key timeoutMs start now))"
proof (induction env sh key timeoutMs start now rule: poll_loop.induct)
  case (1 env sh key timeoutMs start now)
  show ?case
  proof (cases rule: poll_cases [of now start timeoutMs _ env sh key])
    case stop
    then show ?thesis by (simp add: poll_stop error_lines_def)
  next
    case (hit doc)
    then have "rejects env now = None" using query_answer by blast
    with hit show ?thesis by (simp add: poll_hit error_lines_def)
  next
    case (miss doc)
    then have "rejects env now = None" using query_answer by blast
    with miss 1 show ?thesis by (simp add: poll_miss error_lines_def)
  next
    case (err msg)
    then have "rejects env now = Some msg" using query_rejected by blast
    with err 1 show ?thesis by (simp add: poll_err error_lines_def)
  qed
qed

lemma poll_timeout_late:
  "found (poll_loop env sh key timeoutMs start now) = JNull \<Longrightarrow>
     timeoutMs \<le> finished (poll_loop env sh key timeoutMs start now) - start"
proof (induction env sh key timeoutMs start now rule: poll_loop.induct)
  case (1 env sh key timeoutMs start now)
  show ?case
  proof (cases rule: poll_cases [of now start timeoutMs _ env sh key])
    case stop
    then show ?thesis by (simp add: poll_stop)
  next
    case (hit doc)
    with 1(3) show ?thesis by (auto simp: poll_hit)
  next
    case (miss doc)
    with 1 show ?thesis by (simp add: poll_miss)
  next
    case (err msg)
    with 1 show ?thesis by (simp add: poll_err)
  qed
qed

lemma poll_within_budget:
  "t \<in> set (queried (poll_loop env sh key timeoutMs start now)) \<Longrightarrow> now \<le> t \<and> t - start < timeoutMs"
proof (induction env sh key timeoutMs start now rule: poll_loop.induct)
  case (1 env sh key timeoutMs start now)
  have later: "now < next_poll env sh now" by (rule next_poll_later)
  show ?case
  proof (cases rule: poll_cases [of now start timeoutMs _ env sh key])
    case stop
    with 1(3) show ?thesis by (simp add: poll_stop)
  next
    case (hit doc)
    with 1(3) show ?thesis by (simp add: poll_hit)
  next
    case (miss doc)
    with 1 later show ?thesis by (auto simp: poll_miss)
  next
    case (err msg)
    with 1 later show ?thesis by (auto simp: poll_err)
  qed
qed

lemma poll_timeout_iff:
  "(found (poll_loop env sh key timeoutMs start now) = JNull)
     = (\<forall>t \<in> set (queried (poll_loop env sh key timeoutMs start now)). unanswered env sh key t)"
proof (induction env sh key timeoutMs start now rule: poll_loop.induct)
  case (1 env sh key timeoutMs start now)
  show ?case
  proof (cases rule: poll_cases [of now start timeoutMs _ env sh key])
    case stop
    then show ?thesis by (simp add: poll_stop)
  next
    case (hit doc)
    with query_found [of env sh key now doc] show ?thesis
      by (auto simp: poll_hit unanswered_def)
  next
    case (miss doc)
    with query_nothing [of env sh key now doc] 1 show ?thesis
      by (simp add: poll_miss unanswered_def)
  next
    case (err msg)
    with query_rejected [of env sh key now msg] 1 show ?thesis
      by (simp add: poll_err unanswered_def)
  qed
qed

lemma poll_found_last:
  "truthy (found (poll_loop env sh key timeoutMs start now)) \<Longrightarrow>
     queried (poll_loop env sh key timeoutMs start now) \<noteq> []
     \<and> (\<forall>t \<in> set (butlast (queried (poll_loop env sh key timeoutMs start now))). unanswered env sh key t)
     \<and> query env sh key (last (queried (poll_loop env sh key timeoutMs start now)))
         = Inr (found (poll_loop env sh key timeoutMs start now))
     \<and> finished (poll_loop env sh key timeoutMs start now)
         = last (queried (poll_loop env sh key timeoutMs start now))
           + int (latency env (last (queried (poll_loop env sh key timeoutMs start now))))"
proof (induction env sh key timeoutMs start now rule: poll_loop.induct)
  case (1 env sh key timeoutMs start now)
  show ?case
  proof (cases rule: poll_cases [of now start timeoutMs _ env sh key])
    case stop
    with 1(3) show ?thesis by (simp add: poll_stop)
  next
    case (hit doc)
    then show ?thesis by (simp add: poll_hit)
  next
    case (miss doc)
    with query_nothing [of env sh key now doc] 1 show ?thesis
      by (simp add: poll_miss unanswered_def)
  next
    case (err msg)
    with query_rejected [of env sh key now msg] 1 show ?thesis
      by (simp add: poll_err unanswered_def)
  qed
qed



lemma poll_first:
  "now - start < timeoutMs \<Longrightarrow>
     queried (poll_loop env sh key timeoutMs start now) \<noteq> []
     \<and> hd (queried (poll_loop env sh key timeoutMs start now)) = now"
  by (cases rule: poll_cases [of now start timeoutMs _ env sh key])
     (simp_all add: poll_hit poll_miss poll_err)

lemma poll_hd:
  "queried (poll_loop env sh key timeoutMs start now) \<noteq> [] \<Longrightarrow>
     hd (queried (poll_loop env sh key timeoutMs start now)) = now"
  by (cases rule: poll_cases [of now start timeoutMs _ env sh key])
     (simp_all add: poll_stop poll_hit poll_miss poll_err)

lemma poll_continues:
  "t \<in> set (queried (poll_loop env sh key timeoutMs start now)) \<Longrightarrow> unanswered env sh key t \<Longrightarrow>
     next_poll env sh t - start < timeoutMs \<Longrightarrow>
     next_poll env sh t \<in> set (queried (poll_loop env sh key timeoutMs start now))"
proof (induction env sh key timeoutMs start now rule: poll_loop.induct)
  case (1 env sh key timeoutMs start now)
  have first: "n \<in> set (queried (poll_loop env sh key timeoutMs start n))" if "n - start < timeoutMs" for n
    using poll_first [OF that, of env sh key] by (metis hd_in_set)
  show ?case
  proof (cases rule: poll_cases [of now start timeoutMs _ env sh key])
    case stop
    with 1(3) show ?thesis by (simp add: poll_stop)
  next
    case (hit doc)
    with 1(3,4) query_found [of env sh key now doc] show ?thesis
      by (auto simp: poll_hit unanswered_def)
  next
    case (miss doc)
    with 1 first [of "next_poll env sh now"] show ?thesis by (auto simp: poll_miss)
  next
    case (err msg)
    with 1 first [of "next_poll env sh now"] show ?thesis by (auto simp: poll_err)
  qed
qed

lemma poll_consecutive:
  "Suc i < length (queried (poll_loop env sh key timeoutMs start now)) \<Longrightarrow>
     queried (poll_loop env sh key timeoutMs start now) ! Suc i
       = next_poll env sh (queried (poll_loop env sh key timeoutMs start now) ! i)
     \<and> unanswered env sh key (queried (poll_loop env sh key timeoutMs start now) ! i)"
proof (induction env sh key timeoutMs start now arbitrary: i rule: poll_loop.induct)
  case (1 env sh key timeoutMs start now)
  let ?rest = "queried (poll_loop env sh key timeoutMs start (next_poll env sh now))"
  have step: ?case if q: "queried (poll_loop env sh key timeoutMs start now) = now # ?rest"
    and u: "unanswered env sh key now"
    and ih: "\<And>j. Suc j < length ?rest \<Longrightarrow>
               ?rest ! Suc j = next_poll env sh (?rest ! j) \<and> unanswered env sh key (?rest ! j)"
  proof (cases i)
    case 0
    with 1(3) q have "?rest \<noteq> []" by auto
    then have "hd ?rest = next_poll env sh now" by (rule poll_hd)
    with \<open>?rest \<noteq> []\<close> have "?rest ! 0 = next_poll env sh now" by (simp add: hd_conv_nth)
    with 0 q u show ?thesis by simp
  next
    case (Suc j)
    with 1(3) q have "Suc j < length ?rest" by simp
    from ih [OF this] Suc q show ?thesis by simp
  qed
  show ?case
  proof (cases rule: poll_cases [of now start timeoutMs _ env sh key])
    case stop
    with 1(3) show ?thesis by (simp add: poll_stop)
  next
    case (hit doc)
    with 1(3) show ?thesis by (simp add: poll_hit)
  next
    case (miss doc)
    with query_nothing [of env sh key now doc] have u: "unanswered env sh key now"
      by (simp add: unanswered_def)
    from miss have q: "queried (poll_loop env sh key timeoutMs start now) = now # ?rest"
      by (simp add: poll_miss)
    from miss "1.IH" have "\<And>j. Suc j < length ?rest \<Longrightarrow>
               ?rest ! Suc j = next_poll env sh (?rest ! j) \<and> unanswered env sh key (?rest ! j)"
      by blast
    with q u show ?thesis by (rule step)
  next
    case (err msg)
    with query_rejected [of env sh key now msg] have u: "unanswered env sh key now"
      by (simp add: unanswered_def)
    from err have q: "queried (poll_loop env sh key timeoutMs start now) = now # ?rest"
      by (simp add: poll_err)
    from err "1.IH" have "\<And>j. Suc j < length ?rest \<Longrightarrow>
               ?rest ! Suc j = next_poll env sh (?rest ! j) \<and> unanswered env sh key (?rest ! j)"
      by blast
    with q u show ?thesis by (rule step)
  qed
qed

lemma poll_reaches:
  assumes idle: "\<forall>t. latency env t = 0 \<and> overshoot env t = 0"
    and within: "interval sh * int k < timeoutMs"
  shows "start + interval sh * int k \<in> set (queried (poll_loop env sh key timeoutMs start start))
         \<or> found (poll_loop env sh key timeoutMs start start) \<noteq> JNull"
  using within
proof (induction k)
  case 0
  then have "start - start < timeoutMs" by simp
  from poll_first [OF this, of env sh key] show ?case by (metis hd_in_set mult_zero_right add_0_right of_nat_0)
next
  case (Suc k)
  let ?r = "poll_loop env sh key timeoutMs start start"
  let ?t = "start + interval sh * int k"
  have pos: "0 < interval sh" by (cases sh) auto
  from idle have nxt: "next_poll env sh ?t = start + interval sh * int (Suc k)"
    by (simp add: next_poll_def Let_def algebra_simps)
  from Suc.prems pos have "interval sh * int k < timeoutMs"
    by (simp add: algebra_simps)
  from Suc.IH [OF this] show ?case
  proof
    assume mem: "?t \<in> set (queried ?r)"
    show ?thesis
    proof (cases "unanswered env sh key ?t")
      case True
      from Suc.prems nxt have "next_poll env sh ?t - start < timeoutMs" by simp
      from poll_continues [OF mem True this] nxt show ?thesis by simp
    next
      case False
      with mem poll_timeout_iff [of env sh key timeoutMs start start] show ?thesis by blast
    qed
  next
    assume "found ?r \<noteq> JNull"
    then show ?thesis by simp
  qed
qed

lemma unanswered_slave_reply:
  "unanswered env SlaveReply thingid t =
     (\<not> (rejects env t = None
         \<and> (\<exists>d \<in> set (visible env t).
               mongo_eq (getp d ''thingid'') thingid
               \<and> mongo_eq (getp d ''response_type'') (JStr ''slave_response'')
               \<and> (\<exists>ti. getp d ''inserted_at'' = JDate ti \<and> t - 15000 \<le> ti))))"
  by (auto simp: unanswered_def date_gte_def split: jsval.splits)

text \<open>
  C1 (amended). The slave-reply poll issues its first query at once, when the budget is
  positive, and after every query that brings no document the next one, 500 ms plus the
  latency of the query and the lag of the timer later, as long as the elapsed time is
  then below the budget. Each query asks for the documents of the thing with response
  type \<open>slave_response\<close> inserted in the 15 seconds before that query. The first query
  that brings such a document ends the poll at once with the most recently inserted of
  them; so a document that qualifies at one of these polls is returned, and the poll
  returns \<open>null\<close> precisely when none of its queries brings a document, and then not before
  the budget has expired. With no latency and no lag the polls are at \<open>start + 500 k\<close>.
\<close>

theorem C1_poll_latest_or_timeout:
  "let r = poll_loop env SlaveReply thingid timeoutMs start start;
       doc = waitForSlaveResponseFromMongoDB env thingid timeoutMs start;
       qualifies = (\<lambda>t d. mongo_eq (getp d ''thingid'') thingid
                         \<and> mongo_eq (getp d ''response_type'') (JStr ''slave_response'')
                         \<and> (\<exists>ti. getp d ''inserted_at'' = JDate ti \<and> t - 15000 \<le> ti));
       seen = (\<lambda>t. rejects env t = None \<and> (\<exists>d \<in> set (visible env t). qualifies t d));
       next = (\<lambda>t. t + int (latency env t) + 500 + int (overshoot env (t + int (latency env t))))
   in doc = found r
   \<and> (0 < timeoutMs \<longrightarrow> queried r \<noteq> [] \<and> hd (queried r) = start)
   \<and> (\<forall>t \<in> set (queried r). start \<le> t \<and> t - start < timeoutMs)
   \<and> (\<forall>i. Suc i < length (queried r) \<longrightarrow>
         queried r ! Suc i = next (queried r ! i) \<and> \<not> seen (queried r ! i))
   \<and> (\<forall>t \<in> set (queried r). \<not> seen t \<and> next t - start < timeoutMs \<longrightarrow> next t \<in> set (queried r))
   \<and> ((doc = JNull) = (\<forall>t \<in> set (queried r). \<not> seen t))
   \<and> (doc = JNull \<longrightarrow> timeoutMs \<le> finished r - start)
   \<and> (doc \<noteq> JNull \<longrightarrow>
        queried r \<noteq> []
        \<and> (let t = last (queried r) in
             seen t
             \<and> doc \<in> set (visible env t)
             \<and> qualifies t doc
             \<and> (\<forall>d \<in> set (visible env t). \<forall>td ti.
                   qualifies t d \<and> getp d ''inserted_at'' = JDate td \<and> getp doc ''inserted_at'' = JDate ti
                   \<longrightarrow> td \<le> ti)
             \<and> finished r = t + int (latency env t)))
   \<and> ((\<forall>t. latency env t = 0 \<and> overshoot env t = 0) \<longrightarrow>
        (\<forall>k. 500 * int k < timeoutMs \<and> seen (start + 500 * int k) \<longrightarrow> doc \<noteq> JNull))"
proof -
  let ?r = "poll_loop env SlaveReply thingid timeoutMs start start"
  let ?q = "\<lambda>t d. mongo_eq (getp d ''thingid'') thingid
                \<and> mongo_eq (getp d ''response_type'') (JStr ''slave_response'')
                \<and> (\<exists>ti. getp d ''inserted_at'' = JDate ti \<and> t - 15000 \<le> ti)"
  let ?seen = "\<lambda>t. rejects env t = None \<and> (\<exists>d \<in> set (visible env t). ?q t d)"
  let ?next = "\<lambda>t. t + int (latency env t) + 500 + int (overshoot env (t + int (latency env t)))"
  have seen: "unanswered env SlaveReply thingid t = (\<not> ?seen t)" for t
    by (rule unanswered_slave_reply)
  have nxt: "next_poll env SlaveReply t = ?next t" for t
    by (simp add: next_poll_def Let_def)
  have qual: "matches SlaveReply thingid (t - 15000) d = ?q t d" for t d
    by (auto simp: date_gte_def split: jsval.splits)
  have a: "0 < timeoutMs \<longrightarrow> queried ?r \<noteq> [] \<and> hd (queried ?r) = start"
    using poll_first [of start start timeoutMs env SlaveReply thingid] by simp
  have b: "\<forall>t \<in> set (queried ?r). start \<le> t \<and> t - start < timeoutMs"
    using poll_within_budget by blast
  have c: "\<forall>i. Suc i < length (queried ?r) \<longrightarrow>
         queried ?r ! Suc i = ?next (queried ?r ! i) \<and> \<not> ?seen (queried ?r ! i)"
    using poll_consecutive [of _ env SlaveReply thingid timeoutMs start start]
    unfolding seen nxt by blast
  have d: "\<forall>t \<in> set (queried ?r). \<not> ?seen t \<and> ?next t - start < timeoutMs \<longrightarrow> ?next t \<in> set (queried ?r)"
    using poll_continues [of _ env SlaveReply thingid timeoutMs start start]
    unfolding seen nxt by blast
  have e: "(found ?r = JNull) = (\<forall>t \<in> set (queried ?r). \<not> ?seen t)"
    using poll_timeout_iff [of env SlaveReply thingid timeoutMs start start]
    unfolding seen by blast
  have f: "found ?r = JNull \<longrightarrow> timeoutMs \<le> finished ?r - start"
    using poll_timeout_late by blast
  have g: "queried ?r \<noteq> []
        \<and> (let t = last (queried ?r) in
             ?seen t
             \<and> found ?r \<in> set (visible env t)
             \<and> ?q t (found ?r)
             \<and> (\<forall>d \<in> set (visible env t). \<forall>td ti.
                   ?q t d \<and> getp d ''inserted_at'' = JDate td \<and> getp (found ?r) ''inserted_at'' = JDate ti
                   \<longrightarrow> td \<le> ti)
             \<and> finished ?r = t + int (latency env t))" if "found ?r \<noteq> JNull"
  proof -
    let ?t = "last (queried ?r)"
    from that poll_found_or_null [of env SlaveReply thingid timeoutMs start start]
    have t: "truthy (found ?r)" by simp
    note l = poll_found_last [OF t]
    from l have "query env SlaveReply thingid ?t = Inr (found ?r)" by simp
    from query_found [OF this t]
    have rj: "rejects env ?t = None" and mem: "found ?r \<in> set (visible env ?t)"
      and q: "?q ?t (found ?r)"
      and mx: "\<forall>d \<in> set (visible env ?t). ?q ?t d
                 \<longrightarrow> time_of ''inserted_at'' d \<le> time_of ''inserted_at'' (found ?r)"
      unfolding qual [symmetric] by simp_all
    have "td \<le> ti" if "d \<in> set (visible env ?t)" "?q ?t d" "getp d ''inserted_at'' = JDate td"
      "getp (found ?r) ''inserted_at'' = JDate ti" for d td ti
      using mx that by (auto simp: time_of_def)
    with rj mem q l show ?thesis unfolding Let_def by blast
  qed
  have h: "(\<forall>t. latency env t = 0 \<and> overshoot env t = 0) \<longrightarrow>
        (\<forall>k. 500 * int k < timeoutMs \<and> ?seen (start + 500 * int k) \<longrightarrow> found ?r \<noteq> JNull)"
  proof (intro impI allI)
    fix k
    assume idle: "\<forall>t. latency env t = 0 \<and> overshoot env t = 0"
      and k: "500 * int k < timeoutMs \<and> ?seen (start + 500 * int k)"
    from k have "interval SlaveReply * int k < timeoutMs" by simp
    from poll_reaches [OF idle this, of start thingid]
    have "start + 500 * int k \<in> set (queried ?r) \<or> found ?r \<noteq> JNull" by simp
    with e k show "found ?r \<noteq> JNull" by blast
  qed
  from a b c d e f g h show ?thesis
    unfolding waitForSlaveResponseFromMongoDB_def Let_def by blast
qed

theorem C1_poll_latest_or_timeout_witness:
  "waitForSlaveResponseFromMongoDB env_two (JStr ''T0'') 10000 1000 = new_doc
   \<and> queried (poll_loop env_two SlaveReply (JStr ''T0'') 10000 1000 1000) = [1000, 1520]
   \<and> finished (poll_loop env_two SlaveReply (JStr ''T0'') 10000 1000 1000) = 1540
   \<and> rejects env_two 1000 \<noteq> None
   \<and> waitForSlaveResponseFromMongoDB env_down (JStr ''T0'') 1000 0 = JNull
   \<and> queried (poll_loop env_down SlaveReply (JStr ''T0'') 1000 0 0) = [0, 500]
   \<and> 1000 \<le> finished (poll_loop env_down SlaveReply (JStr ''T0'') 1000 0 0) - 0
   \<and> waitForSlaveResponseFromMongoDB env_late (JStr ''T0'') 10500 0 = late_doc
   \<and> 500 * int 20 < (10500 :: int)
   \<and> late_doc \<in> set (visible env_late (0 + 500 * int 20))"
  using C1_poll_latest_or_timeout [of env_two "JStr ''T0''" 10000 1000]
    C1_poll_latest_or_timeout [of env_down "JStr ''T0''" 1000 0]
    C1_poll_latest_or_timeout [of env_late "JStr ''T0''" 10500 0]
  by (simp add: waitForSlaveResponseFromMongoDB_def poll_loop.simps query_def next_poll_def
      env_two_def env_down_def env_late_def late_doc_def old_doc_def new_doc_def mongo_eq_def
      norm_null_def date_gte_def time_of_def Let_def)

text \<open>
  C1 as stated fails: with polls every 500 ms from 0 and a budget of 10000 ms, a reply
  that appears 9700 ms after the start qualifies before the budget expires, and the poll
  times out.
\<close>

theorem C1_late_document_counterexample:
  "waitForSlaveResponseFromMongoDB env_late (JStr ''T0'') 10000 0 = JNull
   \<and> (9700 :: int) - 0 < 10000
   \<and> late_doc \<in> set (visible env_late 9700)
   \<and> matches SlaveReply (JStr ''T0'') (9700 - window SlaveReply) late_doc"
  by (simp add: waitForSlaveResponseFromMongoDB_def poll_loop.simps query_def next_poll_def
      env_late_def late_doc_def mongo_eq_def norm_null_def date_gte_def)

lemma rejected_continues:
  "t \<in> set (queried (poll_loop env sh key timeoutMs start now)) \<Longrightarrow> rejects env t \<noteq> None \<Longrightarrow>
     next_poll env sh t - start < timeoutMs \<Longrightarrow>
     next_poll env sh t \<in> set (queried (poll_loop env sh key timeoutMs start now))"
  using poll_continues [of t env sh key timeoutMs start now] by (simp add: unanswered_def)

text \<open>
  C6. In each of the three polling loops a rejected query counts as a query that found
  nothing: the loop returns what it returns, when it returns it, after the same queries,
  as against the store whose rejected queries answer with nothing. Each rejection is
  logged, the next iteration follows it while the budget lasts, and the loop ends
  without a match only once the budget has expired.
\<close>

theorem C6_query_error_is_no_match:
  "let r = poll_loop env sh key timeoutMs start now;
       r' = poll_loop (forgiving env) sh key timeoutMs start now in
   found r = found r' \<and> finished r = finished r' \<and> queried r = queried r'
   \<and> logged r = error_lines env sh (queried r)
   \<and> (\<forall>t \<in> set (queried r). rejects env t \<noteq> None \<and> next_poll env sh t - start < timeoutMs
         \<longrightarrow> next_poll env sh t \<in> set (queried r))
   \<and> (found r = JNull \<longrightarrow> timeoutMs \<le> finished r - start)
   \<and> waitForSlaveResponseFromMongoDB env key timeoutMs start
       = waitForSlaveResponseFromMongoDB (forgiving env) key timeoutMs start
   \<and> checkBaseRespondedInMongo env key timeoutMs start
       = checkBaseRespondedInMongo (forgiving env) key timeoutMs start
   \<and> checkTankRespondedInMongo env key sensorNo timeoutMs start
       = checkTankRespondedInMongo (forgiving env) key sensorNo timeoutMs start"
  using poll_forgiving [of env sh key timeoutMs start now]
    poll_logged [of env sh key timeoutMs start now]
    poll_timeout_late [of env sh key timeoutMs start now]
    rejected_continues [of _ env sh key timeoutMs start now]
    poll_forgiving [of env SlaveReply key timeoutMs start start]
    poll_forgiving [of env AliveReply key timeoutMs start start]
    poll_forgiving [of env "SensorUpdate sensorNo" key timeoutMs start start]
  by (simp add: Let_def waitForSlaveResponseFromMongoDB_def checkBaseRespondedInMongo_def
      checkTankRespondedInMongo_def)

theorem C6_query_error_is_no_match_witness:
  "found (poll_loop env_two SlaveReply (JStr ''T0'') 10000 1000 1000) = new_doc
   \<and> queried (poll_loop env_two SlaveReply (JStr ''T0'') 10000 1000 1000) = [1000, 1520]
   \<and> rejects env_two 1000 = Some ''down''
   \<and> next_poll env_two SlaveReply 1000 = 1520
   \<and> logged (poll_loop env_two SlaveReply (JStr ''T0'') 10000 1000 1000)
       = [''Error polling slave response: down'']
   \<and> found (poll_loop env_down AliveReply (JStr ''D0'') 2000 0 0) = JNull
   \<and> logged (poll_loop env_down AliveReply (JStr ''D0'') 2000 0 0)
       = [''Error checking base response: down'', ''Error checking base response: down'']
   \<and> 2000 \<le> finished (poll_loop env_down AliveReply (JStr ''D0'') 2000 0 0) - 0"
  using C6_query_error_is_no_match [of env_two SlaveReply "JStr ''T0''" 10000 1000 1000]
    C6_query_error_is_no_match [of env_down AliveReply "JStr ''D0''" 2000 0 0]
  by (simp add: poll_loop.simps query_def next_poll_def
      env_two_def env_down_def old_doc_def new_doc_def mongo_eq_def norm_null_def date_gte_def
      time_of_def Let_def error_lines_def)

section \<open>Properties of parseInt\<close>

lemma digit_val_digit_char: "d < 10 \<Longrightarrow> digit_val (digit_char d) = Some d"
proof -
  assume "d < 10"
  then have "d \<in> {0,1,2,3,4,5,6,7,8,9}" by auto
  then show ?thesis by (auto simp: digit_val_def digit_char_def)
qed

lemma digit_char_plain: "d < 10 \<Longrightarrow> \<not> is_ws (digit_char d) \<and> digit_char d \<noteq> CHR ''-'' \<and> digit_char d \<noteq> CHR ''+''
   \<and> digit_char d \<noteq> CHR ''x'' \<and> digit_char d \<noteq> CHR ''X''"
proof -
  assume "d < 10"
  then have "d \<in> {0,1,2,3,4,5,6,7,8,9}" by auto
  then show ?thesis by (auto simp: is_ws_def digit_char_def)
qed

lemma digits_nonempty: "digits n \<noteq> []"
  by (subst digits.simps) simp

lemma digits_chars: "c \<in> set (digits n) \<Longrightarrow> \<exists>d < 10. c = digit_char d"
proof (induction n rule: digits.induct)
  case (1 n)
  show ?case
  proof (cases "n < 10")
    case True
    with 1(2) show ?thesis by (subst (asm) digits.simps) auto
  next
    case False
    from 1(2) have "c \<in> set (digits (n div 10)) \<or> c = digit_char (n mod 10)"
      using False by (subst (asm) digits.simps) auto
    with 1(1) False show ?thesis by (auto intro: exI [of _ "n mod 10"])
  qed
qed

lemma radix_digits_append:
  "\<forall>c \<in> set s. \<exists>d < 10. c = digit_char d \<Longrightarrow> e < 10 \<Longrightarrow>
     radix_digits 10 (s @ [digit_char e]) = radix_digits 10 s @ [e] \<and> length (radix_digits 10 s) = length s"
  by (induction s) (auto simp: digit_val_digit_char)

lemma digits_value:
  "radix_digits 10 (digits n) \<noteq> [] \<and> horner 10 (radix_digits 10 (digits n)) = n"
proof (induction n rule: digits.induct)
  case (1 n)
  show ?case
  proof (cases "n < 10")
    case True
    then show ?thesis
      by (subst (1 2) digits.simps) (simp add: digit_val_digit_char horner_def)
  next
    case False
    have "radix_digits 10 (digits (n div 10) @ [digit_char (n mod 10)])
            = radix_digits 10 (digits (n div 10)) @ [n mod 10]"
      using radix_digits_append [of "digits (n div 10)" "n mod 10"] digits_chars by simp
    with False 1 show ?thesis
      by (subst (1 2) digits.simps) (simp add: horner_def)
  qed
qed

lemma digits_head: "\<exists>d < 10. \<exists>cs. digits n = digit_char d # cs"
proof -
  obtain c cs where eq: "digits n = c # cs" using digits_nonempty [of n] by (cases "digits n") auto
  then have "c \<in> set (digits n)" by simp
  then obtain d where "d < 10" "c = digit_char d" using digits_chars by blast
  with eq show ?thesis by blast
qed

lemma strip_radix_digits: "strip_radix (digits n) = (10, digits n)"
proof (cases "digits n" rule: strip_radix.cases)
  case (1 a b cs)
  then have "b \<in> set (digits n)" by simp
  then obtain d where "d < 10" "b = digit_char d" using digits_chars by blast
  with 1 digit_char_plain [of d] show ?thesis by simp
qed simp_all

lemma number_of_small: "\<bar>n\<bar> \<le> 9007199254740992 \<Longrightarrow> number_of h n = JNum (of_int n)"
  by (simp add: number_of_def)

lemma parseInt_str_digits: "parseInt_str h (digits n) = number_of h (int n)"
proof -
  obtain d cs where d: "d < 10" "digits n = digit_char d # cs" using digits_head by blast
  with digit_char_plain [of d] have "dropWhile is_ws (digits n) = digits n"
    and "strip_sign (digits n) = (False, digits n)" by simp_all
  then show ?thesis
    using digits_value [of n] by (simp add: parseInt_str_def strip_radix_digits)
qed

lemma parseInt_str_neg_digits: "parseInt_str h (CHR ''-'' # digits n) = number_of h (- int n)"
proof -
  have "\<not> is_ws (CHR ''-'')" by (simp add: is_ws_def)
  then show ?thesis
    using digits_value [of n] by (simp add: parseInt_str_def strip_radix_digits)
qed

lemma parseInt_str_int_text: "parseInt_str h (int_text n) = number_of h n"
  by (simp add: int_text_def parseInt_str_digits parseInt_str_neg_digits)

lemma safe_integer_of_int: "safe_integer (of_int n) = (\<bar>n\<bar> \<le> 9007199254740992)"
proof -
  have "\<bar>(of_int n :: rat)\<bar> = of_int \<bar>n\<bar>" by simp
  moreover have "((of_int \<bar>n\<bar> :: rat) \<le> 9007199254740992) = (\<bar>n\<bar> \<le> 9007199254740992)"
    using of_int_le_iff [of "\<bar>n\<bar>" 9007199254740992, where ?'a = rat] by simp
  ultimately show ?thesis by (simp add: safe_integer_def)
qed

lemma parseInt_integer:
  "\<bar>n\<bar> \<le> 9007199254740992 \<Longrightarrow> parseInt h (JNum (of_int n)) = JNum (of_int n)"
  by (simp add: parseInt_def safe_integer_of_int parseInt_str_int_text number_of_small)

lemma parseInt_number:
  "parseInt h v = JNaN \<or> (\<exists>q. parseInt h v = JNum q) \<or> (\<exists>b. parseInt h v = JInf b)"
  by (auto simp: parseInt_def parseInt_str_def number_of_def Let_def split: prod.splits option.splits)

section \<open>Properties of the orchestrator\<close>

lemma slaveRequest_published:
  assumes "\<not> nullish body" "truthy (getp body ''deviceid'')" "truthy (getp body ''sensor_no'')"
    and "truthy (getThingIdByDeviceId (store sv) (getp body ''deviceid''))"
    and "getTopic sv ''slaveRequest'' (getThingIdByDeviceId (store sv) (getp body ''deviceid'')) ''slaveRequest'' = Inr topic"
  shows "slaveRequest sv body now =
     (case publishToIoT sv topic (slave_payload (engine sv) body) of
        Some msg \<Rightarrow> (internal_error msg,
                     [Resolve (getp body ''deviceid''), Publish topic (slave_payload (engine sv) body)])
      | None \<Rightarrow>
          (let response = waitForSlaveResponseFromMongoDB (device_responses sv)
                            (getThingIdByDeviceId (store sv) (getp body ''deviceid'')) 10000 now in
           (if truthy response
            then Response 200 (JObj [(''success'', JBool True),
                                     (''message'', JStr ''Published and response received''),
                                     (''data'', reply_data (engine sv) body response)])
            else Response 200 (JObj [(''success'', JBool True),
                                     (''message'', JStr ''Published but no response received''),
                                     (''data'', JNull)]),
            [Resolve (getp body ''deviceid''), Publish topic (slave_payload (engine sv) body),
             Poll (getThingIdByDeviceId (store sv) (getp body ''deviceid'')) 10000])))"
  using assms by (simp add: slaveRequest_def Let_def)

lemma slaveRequest_no_topic:
  assumes "\<not> nullish body" "truthy (getp body ''deviceid'')" "truthy (getp body ''sensor_no'')"
    and "truthy (getThingIdByDeviceId (store sv) (getp body ''deviceid''))"
    and "getTopic sv ''slaveRequest'' (getThingIdByDeviceId (store sv) (getp body ''deviceid'')) ''slaveRequest'' = Inl msg"
  shows "slaveRequest sv body now = (internal_error msg, [Resolve (getp body ''deviceid'')])"
  using assms by (simp add: slaveRequest_def Let_def)

lemma wait_found_or_null:
  "waitForSlaveResponseFromMongoDB env thingid timeoutMs start = JNull
   \<or> truthy (waitForSlaveResponseFromMongoDB env thingid timeoutMs start)"
  using poll_found_or_null by (simp add: waitForSlaveResponseFromMongoDB_def)

lemma reply_data_explicit:
  "reply_data h body reply =
     JObj [(''status'', if truthy (if nullish (getp reply ''response_data'') then JUndef
                                   else getp (getp reply ''response_data'') ''status'')
                        then getp (getp reply ''response_data'') ''status'' else JStr ''success''),
           (''deviceid'', getp reply ''deviceid''),
           (''thingid'', getp reply ''thingid''),
           (''channel'', if truthy (if nullish (getp reply ''response_data'') then JUndef
                                    else getp (getp reply ''response_data'') ''channel'')
                         then parseInt h (getp (getp reply ''response_data'') ''channel'')
                         else parseInt h (getp body ''channel'')),
           (''address_l'', if truthy (if nullish (getp reply ''response_data'') then JUndef
                                      else getp (getp reply ''response_data'') ''address_l'')
                           then getp (getp reply ''response_data'') ''address_l'' else getp body ''address_l''),
           (''address_h'', if truthy (if nullish (getp reply ''response_data'') then JUndef
                                      else getp (getp reply ''response_data'') ''address_h'')
                           then getp (getp reply ''response_data'') ''address_h'' else getp body ''address_h''),
           (''sensor_no'', if truthy (if nullish (getp reply ''response_data'') then JUndef
                                      else getp (getp reply ''response_data'') ''sensor_no'')
                           then getp (getp reply ''response_data'') ''sensor_no'' else getp body ''sensor_no''),
           (''slaveid'', if nullish (getp reply ''response_data'') then JUndef
                         else getp (getp reply ''response_data'') ''slaveid''),
           (''timestamp'', getp reply ''inserted_at'')]"
  by (simp add: reply_data_def Let_def js_or_def optchain_def)

text \<open>
  C4. Once the request is valid and the device resolved, the slave request has three
  outcomes. A reply found by the poll with its budget of 10000 ms gives status 200 with
  success and the reply's data: status, channel, addresses, sensor index and slave id
  reconciled from the reply's payload and the request, with the reply's device id, thing
  id and time of insertion. No reply gives status 200 with success and \<open>null\<close> data. A
  publish that fails gives status 500 with its message, and no poll is among the
  effects; so does a topic that cannot be derived, before anything is published.
\<close>

theorem C4_three_outcomes:
  "(\<not> nullish body \<and> truthy deviceid \<and> truthy (getp body ''sensor_no'')
    \<and> deviceid = getp body ''deviceid''
    \<and> thingid = getThingIdByDeviceId (store sv) deviceid \<and> truthy thingid
    \<and> getTopic sv ''slaveRequest'' thingid ''slaveRequest'' = Inr topic
    \<and> payload = slave_payload (engine sv) body
    \<and> reply = waitForSlaveResponseFromMongoDB (device_responses sv) thingid 10000 now
    \<and> rd = getp reply ''response_data''
    \<and> opt = (\<lambda>k. if nullish rd then JUndef else getp rd k)
    \<longrightarrow>
      (publishToIoT sv topic payload = None \<and> reply \<noteq> JNull \<longrightarrow>
         slaveRequest sv body now =
           (Response 200
              (JObj [(''success'', JBool True),
                     (''message'', JStr ''Published and response received''),
                     (''data'',
                        JObj [(''status'', if truthy (opt ''status'') then opt ''status'' else JStr ''success''),
                              (''deviceid'', getp reply ''deviceid''),
                              (''thingid'', getp reply ''thingid''),
                              (''channel'', if truthy (opt ''channel'') then parseInt (engine sv) (opt ''channel'')
                                            else parseInt (engine sv) (getp body ''channel'')),
                              (''address_l'', if truthy (opt ''address_l'') then opt ''address_l''
                                              else getp body ''address_l''),
                              (''address_h'', if truthy (opt ''address_h'') then opt ''address_h''
                                              else getp body ''address_h''),
                              (''sensor_no'', if truthy (opt ''sensor_no'') then opt ''sensor_no''
                                              else getp body ''sensor_no''),
                              (''slaveid'', opt ''slaveid''),
                              (''timestamp'', getp reply ''inserted_at'')])]),
            [Resolve deviceid, Publish topic payload, Poll thingid 10000]))
    \<and> (publishToIoT sv topic payload = None \<and> reply = JNull \<longrightarrow>
         slaveRequest sv body now =
           (Response 200 (JObj [(''success'', JBool True),
                                (''message'', JStr ''Published but no response received''),
                                (''data'', JNull)]),
            [Resolve deviceid, Publish topic payload, Poll thingid 10000]))
    \<and> (\<forall>msg. publishToIoT sv topic payload = Some msg \<longrightarrow>
         slaveRequest sv body now =
           (Response 500 (JObj [(''success'', JBool False), (''error'', JStr msg)]),
            [Resolve deviceid, Publish topic payload])))
   \<and> (\<not> nullish body' \<and> truthy (getp body' ''deviceid'') \<and> truthy (getp body' ''sensor_no'')
      \<and> truthy (getThingIdByDeviceId (store sv') (getp body' ''deviceid''))
      \<and> getTopic sv' ''slaveRequest'' (getThingIdByDeviceId (store sv') (getp body' ''deviceid'')) ''slaveRequest''
          = Inl msg'
      \<longrightarrow> slaveRequest sv' body' now' =
            (Response 500 (JObj [(''success'', JBool False), (''error'', JStr msg')]),
             [Resolve (getp body' ''deviceid'')]))"
proof (intro conjI impI)
  assume a: "\<not> nullish body \<and> truthy deviceid \<and> truthy (getp body ''sensor_no'')
    \<and> deviceid = getp body ''deviceid''
    \<and> thingid = getThingIdByDeviceId (store sv) deviceid \<and> truthy thingid
    \<and> getTopic sv ''slaveRequest'' thingid ''slaveRequest'' = Inr topic
    \<and> payload = slave_payload (engine sv) body
    \<and> reply = waitForSlaveResponseFromMongoDB (device_responses sv) thingid 10000 now
    \<and> rd = getp reply ''response_data''
    \<and> opt = (\<lambda>k. if nullish rd then JUndef else getp rd k)"
  then have pre: "\<not> nullish body" "truthy (getp body ''deviceid'')" "truthy (getp body ''sensor_no'')"
    "truthy (getThingIdByDeviceId (store sv) (getp body ''deviceid''))"
    "getTopic sv ''slaveRequest'' (getThingIdByDeviceId (store sv) (getp body ''deviceid'')) ''slaveRequest'' = Inr topic"
    by auto
  note run = slaveRequest_published [OF pre, of now]
  from a have eqs: "deviceid = getp body ''deviceid''"
    "thingid = getThingIdByDeviceId (store sv) (getp body ''deviceid'')"
    "payload = slave_payload (engine sv) body"
    "reply = waitForSlaveResponseFromMongoDB (device_responses sv)
               (getThingIdByDeviceId (store sv) (getp body ''deviceid'')) 10000 now"
    "rd = getp reply ''response_data''"
    "opt = (\<lambda>k. if nullish rd then JUndef else getp rd k)"
    by auto
  note alt = wait_found_or_null [of "device_responses sv"
      "getThingIdByDeviceId (store sv) (getp body ''deviceid'')" 10000 now]
  {
    assume b: "publishToIoT sv topic payload = None \<and> reply \<noteq> JNull"
    with eqs(4) alt have t: "truthy reply" by auto
    have data: "reply_data (engine sv) body reply =
        JObj [(''status'', if truthy (opt ''status'') then opt ''status'' else JStr ''success''),
              (''deviceid'', getp reply ''deviceid''),
              (''thingid'', getp reply ''thingid''),
              (''channel'', if truthy (opt ''channel'') then parseInt (engine sv) (opt ''channel'')
                            else parseInt (engine sv) (getp body ''channel'')),
              (''address_l'', if truthy (opt ''address_l'') then opt ''address_l''
                              else getp body ''address_l''),
              (''address_h'', if truthy (opt ''address_h'') then opt ''address_h''
                              else getp body ''address_h''),
              (''sensor_no'', if truthy (opt ''sensor_no'') then opt ''sensor_no''
                              else getp body ''sensor_no''),
              (''slaveid'', opt ''slaveid''),
              (''timestamp'', getp reply ''inserted_at'')]"
      unfolding reply_data_explicit eqs(5,6) by auto
    from b t eqs(3) have "slaveRequest sv body now =
        (Response 200 (JObj [(''success'', JBool True),
                             (''message'', JStr ''Published and response received''),
                             (''data'', reply_data (engine sv) body reply)]),
         [Resolve deviceid, Publish topic payload, Poll thingid 10000])"
      unfolding run eqs(1,2) using eqs(4) by (simp add: Let_def)
    then show "slaveRequest sv body now =
           (Response 200
              (JObj [(''success'', JBool True),
                     (''message'', JStr ''Published and response received''),
                     (''data'',
                        JObj [(''status'', if truthy (opt ''status'') then opt ''status'' else JStr ''success''),
                              (''deviceid'', getp reply ''deviceid''),
                              (''thingid'', getp reply ''thingid''),
                              (''channel'', if truthy (opt ''channel'') then parseInt (engine sv) (opt ''channel'')
                                            else parseInt (engine sv) (getp body ''channel'')),
                              (''address_l'', if truthy (opt ''address_l'') then opt ''address_l''
                                              else getp body ''address_l''),
                              (''address_h'', if truthy (opt ''address_h'') then opt ''address_h''
                                              else getp body ''address_h''),
                              (''sensor_no'', if truthy (opt ''sensor_no'') then opt ''sensor_no''
                                              else getp body ''sensor_no''),
                              (''slaveid'', opt ''slaveid''),
                              (''timestamp'', getp reply ''inserted_at'')])]),
            [Resolve deviceid, Publish topic payload, Poll thingid 10000])"
      unfolding data .
  }
  {
    assume b: "publishToIoT sv topic payload = None \<and> reply = JNull"
    with eqs(3,4) show "slaveRequest sv body now =
           (Response 200 (JObj [(''success'', JBool True),
                                (''message'', JStr ''Published but no response received''),
                                (''data'', JNull)]),
            [Resolve deviceid, Publish topic payload, Poll thingid 10000])"
      unfolding run eqs(1,2) by (simp add: Let_def)
  }
  show "\<forall>msg. publishToIoT sv topic payload = Some msg \<longrightarrow>
         slaveRequest sv body now =
           (Response 500 (JObj [(''success'', JBool False), (''error'', JStr msg)]),
            [Resolve deviceid, Publish topic payload])"
    using eqs(3) unfolding run eqs(1,2) by (simp add: internal_error_def)
next
  assume "\<not> nullish body' \<and> truthy (getp body' ''deviceid'') \<and> truthy (getp body' ''sensor_no'')
      \<and> truthy (getThingIdByDeviceId (store sv') (getp body' ''deviceid''))
      \<and> getTopic sv' ''slaveRequest'' (getThingIdByDeviceId (store sv') (getp body' ''deviceid'')) ''slaveRequest''
          = Inl msg'"
  then show "slaveRequest sv' body' now' =
            (Response 500 (JObj [(''success'', JBool False), (''error'', JStr msg')]),
             [Resolve (getp body' ''deviceid'')])"
    by (simp add: slaveRequest_no_topic internal_error_def)
qed

lemmas example_defs = sv_example_def sv_offline_def sv_silent_def sv_untitled_def body_example_def
  db_scenario_def env_reply_def env_down_def reply_doc_def old_doc_def new_doc_def host_example_def

lemmas run_defs = slaveRequest_def setting_def slave_payload_def reply_data_def internal_error_def
  waitForSlaveResponseFromMongoDB_def poll_loop.simps query_def next_poll_def date_gte_def time_of_def
  optchain_def parseInt_def parseInt_str_def number_of_def safe_integer_def int_text_def
  digit_val_def is_ws_def horner_def digits.simps digit_char_def
  resolver_defs Let_def

theorem C4_three_outcomes_witness:
  "slaveRequest sv_example body_example 1000 =
     (Response 200
        (JObj [(''success'', JBool True),
               (''message'', JStr ''Published and response received''),
               (''data'', JObj [(''status'', JStr ''ok''), (''deviceid'', JStr ''D0''),
                               (''thingid'', JStr ''T0''), (''channel'', JNum 2),
                               (''address_l'', JNum 16), (''address_h'', JNum 0),
                               (''sensor_no'', JNum 1), (''slaveid'', JUndef),
                               (''timestamp'', JDate 100)])]),
      [Resolve (JStr ''D1''),
       Publish (JStr ''things/T0/slaveRequest'')
         (JObj [(''deviceid'', JStr ''D1''), (''sensor_no'', JNum 1), (''mode'', JNum 3),
                (''channel'', JNum 5), (''address_l'', JNum 16), (''address_h'', JNum 0),
                (''range'', JNum 100), (''capacity'', JNum 500), (''slaveid'', JNum 7)]),
       Poll (JStr ''T0'') 10000])
   \<and> slaveRequest sv_silent body_example 1000 =
     (Response 200 (JObj [(''success'', JBool True),
                          (''message'', JStr ''Published but no response received''),
                          (''data'', JNull)]),
      [Resolve (JStr ''D1''),
       Publish (JStr ''things/T0/slaveRequest'')
         (JObj [(''deviceid'', JStr ''D1''), (''sensor_no'', JNum 1), (''mode'', JNum 3),
                (''channel'', JNum 5), (''address_l'', JNum 16), (''address_h'', JNum 0),
                (''range'', JNum 100), (''capacity'', JNum 500), (''slaveid'', JNum 7)]),
       Poll (JStr ''T0'') 10000])
   \<and> slaveRequest sv_offline body_example 1000 =
     (Response 500 (JObj [(''success'', JBool False), (''error'', JStr ''broker unreachable'')]),
      [Resolve (JStr ''D1''),
       Publish (JStr ''things/T0/slaveRequest'')
         (JObj [(''deviceid'', JStr ''D1''), (''sensor_no'', JNum 1), (''mode'', JNum 3),
                (''channel'', JNum 5), (''address_l'', JNum 16), (''address_h'', JNum 0),
                (''range'', JNum 100), (''capacity'', JNum 500), (''slaveid'', JNum 7)])])
   \<and> slaveRequest sv_untitled body_example 1000 =
     (Response 500 (JObj [(''success'', JBool False), (''error'', JStr ''no topic'')]),
      [Resolve (JStr ''D1'')])"
  using C4_three_outcomes [of body_example "JStr ''D1''" "JStr ''T0''" sv_example "JStr ''things/T0/slaveRequest''"
      "slave_payload host_example body_example" reply_doc 1000
      "JObj [(''status'', JStr ''ok''), (''channel'', JStr ''2'')]"
      "\<lambda>k. getp (JObj [(''status'', JStr ''ok''), (''channel'', JStr ''2'')]) k"
      body_example sv_untitled "''no topic''" 1000]
    C4_three_outcomes [of body_example "JStr ''D1''" "JStr ''T0''" sv_silent "JStr ''things/T0/slaveRequest''"
      "slave_payload host_example body_example" JNull 1000 JUndef "\<lambda>k. JUndef"
      body_example sv_untitled "''no topic''" 1000]
    C4_three_outcomes [of body_example "JStr ''D1''" "JStr ''T0''" sv_offline "JStr ''things/T0/slaveRequest''"
      "slave_payload host_example body_example" reply_doc 1000
      "JObj [(''status'', JStr ''ok''), (''channel'', JStr ''2'')]"
      "\<lambda>k. getp (JObj [(''status'', JStr ''ok''), (''channel'', JStr ''2'')]) k"
      body_example sv_untitled "''no topic''" 1000]
  by (simp add: example_defs run_defs)

text \<open>
  C5. For a device the resolver does not know, \<open>setting\<close> throws the error with the prefix
  of a failed publish although nothing was published, the same prefix as for a publish
  that did fail. The slave request answers the same lookup with status 404.
\<close>

theorem C5_not_found_wrapped_as_publish_failure:
  "setting sv_example (JStr ''X'') payload =
     (Inl ''MQTT Publish Failed: No thingid found for deviceid: X'', [Resolve (JStr ''X'')])
   \<and> setting sv_offline (JStr ''D1'') payload =
     (Inl ''MQTT Publish Failed: broker unreachable'',
      [Resolve (JStr ''D1''), Publish (JStr ''things/T0/setting'') payload])
   \<and> slaveRequest sv_example (JObj [(''deviceid'', JStr ''X''), (''sensor_no'', JNum 1)]) now =
     (Response 404 (JObj [(''success'', JBool False),
                          (''error'', JStr ''DeviceId not found or no associated thing ID'')]),
      [Resolve (JStr ''X'')])"
  by (simp add: example_defs run_defs)

theorem C5_not_found_wrapped_as_publish_failure_witness:
  "setting sv_example (JStr ''X'') (JObj [(''interval'', JNum 30)]) =
     (Inl ''MQTT Publish Failed: No thingid found for deviceid: X'', [Resolve (JStr ''X'')])
   \<and> fst (slaveRequest sv_example (JObj [(''deviceid'', JStr ''X''), (''sensor_no'', JNum 1)]) 1000) =
       Response 404 (JObj [(''success'', JBool False),
                           (''error'', JStr ''DeviceId not found or no associated thing ID'')])"
  using C5_not_found_wrapped_as_publish_failure [of "JObj [(''interval'', JNum 30)]" 1000]
  by simp

text \<open>
  C7. The request carries slave id 7 and the reply's payload carries neither a slave id
  nor the address fields. The returned data takes the address fields from the request,
  and has no slave id.
\<close>

theorem C7_slaveid_without_request_fallback:
  "body_of (fst (slaveRequest sv_example body_example 1000)) =
     JObj [(''success'', JBool True),
           (''message'', JStr ''Published and response received''),
           (''data'', JObj [(''status'', JStr ''ok''), (''deviceid'', JStr ''D0''),
                           (''thingid'', JStr ''T0''), (''channel'', JNum 2),
                           (''address_l'', JNum 16), (''address_h'', JNum 0),
                           (''sensor_no'', JNum 1), (''slaveid'', JUndef),
                           (''timestamp'', JDate 100)])]
   \<and> getp body_example ''slaveid'' = JNum 7
   \<and> getp (getp reply_doc ''response_data'') ''slaveid'' = JUndef
   \<and> getp body_example ''address_l'' = JNum 16
   \<and> getp (getp reply_doc ''response_data'') ''address_l'' = JUndef"
  by (simp add: example_defs run_defs)

theorem C7_slaveid_without_request_fallback_witness:
  "getp (getp (body_of (fst (slaveRequest sv_example body_example 1000))) ''data'') ''slaveid'' = JUndef
   \<and> getp (getp (body_of (fst (slaveRequest sv_example body_example 1000))) ''data'') ''address_l''
       = getp body_example ''address_l''
   \<and> getp body_example ''slaveid'' = JNum 7"
  using C7_slaveid_without_request_fallback by simp

text \<open>
  C8 as stated fails: a request with mode 0 is published with mode 3; and on a host that
  writes the number \<open>10^21\<close> as \<open>1e+21\<close>, as JavaScript does, a request with that mode is
  published with mode 1.
\<close>

theorem C8_mode_zero_counterexample:
  "snd (slaveRequest sv_example body_example 1000) =
     [Resolve (JStr ''D1''),
      Publish (JStr ''things/T0/slaveRequest'')
        (JObj [(''deviceid'', JStr ''D1''), (''sensor_no'', JNum 1), (''mode'', JNum 3), (''channel'', JNum 5),
               (''address_l'', JNum 16), (''address_h'', JNum 0), (''range'', JNum 100),
               (''capacity'', JNum 500), (''slaveid'', JNum 7)]),
      Poll (JStr ''T0'') 10000]
   \<and> getp body_example ''mode'' = JNum 0
   \<and> getp body_huge ''mode'' = JNum 1000000000000000000000
   \<and> ToString host_exponent (getp body_huge ''mode'') = ''1e+21''
   \<and> getp (slave_payload host_exponent body_huge) ''mode'' = JNum 1"
  by (simp add: example_defs host_exponent_def body_huge_def run_defs)

lemma payload_fields:
  "getp (slave_payload h body) ''mode'' = js_or (parseInt h (getp body ''mode'')) (JNum 3)
   \<and> getp (slave_payload h body) ''channel'' = parseInt h (getp body ''channel'')
   \<and> getp (slave_payload h body) ''range'' = parseInt h (getp body ''range'')
   \<and> getp (slave_payload h body) ''capacity'' = parseInt h (getp body ''capacity'')
   \<and> getp (slave_payload h body) ''address_l'' = getp body ''address_l''
   \<and> getp (slave_payload h body) ''address_h'' = getp body ''address_h''
   \<and> getp (slave_payload h body) ''deviceid'' = getp body ''deviceid''
   \<and> getp (slave_payload h body) ''sensor_no'' = getp body ''sensor_no''"
  by (simp add: slave_payload_def Let_def map_of_assign)

lemma payload_slaveid:
  "(''slaveid'' \<in> fst ` set (own_props (slave_payload h body))) = truthy (getp body ''slaveid'')
   \<and> (truthy (getp body ''slaveid'') \<longrightarrow> getp (slave_payload h body) ''slaveid'' = getp body ''slaveid'')"
  by (simp add: slave_payload_def Let_def)

lemma parseInt_given:
  "\<bar>n\<bar> \<le> 9007199254740992 \<Longrightarrow> v = JNum (of_int n) \<or> v = JStr (int_text n) \<Longrightarrow>
     parseInt h v = JNum (of_int n)"
proof (erule disjE)
  assume "\<bar>n\<bar> \<le> 9007199254740992" "v = JNum (of_int n)"
  then show ?thesis by (simp add: parseInt_integer)
next
  assume "\<bar>n\<bar> \<le> 9007199254740992" "v = JStr (int_text n)"
  then show ?thesis by (simp add: parseInt_def parseInt_str_int_text number_of_small)
qed

lemma parseInt_absent: "parseInt h JUndef = JNaN"
  by (simp add: parseInt_def parseInt_str_def digit_val_def is_ws_def)

text \<open>
  C8 (amended). The published payload carries mode, channel, range and capacity as
  \<open>parseInt\<close> leaves them, numbers all: an integer of magnitude at most \<open>2^53\<close>, given as a
  number or in decimal digits, is published as that integer. Mode is 3 exactly when its
  parse is \<open>NaN\<close>, as for an absent mode, or 0; an integer mode other than 0 in that range
  is published as given. The address fields, device id and sensor index pass through,
  and the slave id is a key of the payload exactly when the request's slave id is truthy.
\<close>

theorem C8_published_payload:
  "\<not> nullish body \<and> truthy (getp body ''deviceid'') \<and> truthy (getp body ''sensor_no'')
   \<and> thingid = getThingIdByDeviceId (store sv) (getp body ''deviceid'') \<and> truthy thingid
   \<and> getTopic sv ''slaveRequest'' thingid ''slaveRequest'' = Inr topic
   \<and> h = engine sv
   \<longrightarrow>
     (\<exists>payload. take 2 (snd (slaveRequest sv body now)) = [Resolve (getp body ''deviceid''), Publish topic payload]
        \<and> getp payload ''mode'' =
            (if parseInt h (getp body ''mode'') = JNaN \<or> parseInt h (getp body ''mode'') = JNum 0
             then JNum 3 else parseInt h (getp body ''mode''))
        \<and> (getp body ''mode'' = JUndef \<longrightarrow> getp payload ''mode'' = JNum 3)
        \<and> (\<forall>n. (getp body ''mode'' = JNum (of_int n) \<or> getp body ''mode'' = JStr (int_text n))
                \<and> \<bar>n\<bar> \<le> 9007199254740992
              \<longrightarrow> getp payload ''mode'' = (if n = 0 then JNum 3 else JNum (of_int n)))
        \<and> (\<forall>f \<in> {''channel'', ''range'', ''capacity''}.
              getp payload f = parseInt h (getp body f)
              \<and> (\<forall>n. (getp body f = JNum (of_int n) \<or> getp body f = JStr (int_text n))
                      \<and> \<bar>n\<bar> \<le> 9007199254740992
                    \<longrightarrow> getp payload f = JNum (of_int n)))
        \<and> (\<forall>f \<in> {''mode'', ''channel'', ''range'', ''capacity''}.
              getp payload f = JNaN \<or> (\<exists>q. getp payload f = JNum q) \<or> (\<exists>b. getp payload f = JInf b))
        \<and> (\<forall>f \<in> {''address_l'', ''address_h'', ''deviceid'', ''sensor_no''}. getp payload f = getp body f)
        \<and> (''slaveid'' \<in> fst ` set (own_props payload)) = truthy (getp body ''slaveid'')
        \<and> (truthy (getp body ''slaveid'') \<longrightarrow> getp payload ''slaveid'' = getp body ''slaveid''))"
proof (intro impI)
  assume a: "\<not> nullish body \<and> truthy (getp body ''deviceid'') \<and> truthy (getp body ''sensor_no'')
   \<and> thingid = getThingIdByDeviceId (store sv) (getp body ''deviceid'') \<and> truthy thingid
   \<and> getTopic sv ''slaveRequest'' thingid ''slaveRequest'' = Inr topic
   \<and> h = engine sv"
  let ?p = "slave_payload h body"
  from a have pre: "\<not> nullish body" "truthy (getp body ''deviceid'')" "truthy (getp body ''sensor_no'')"
    "truthy (getThingIdByDeviceId (store sv) (getp body ''deviceid''))"
    "getTopic sv ''slaveRequest'' (getThingIdByDeviceId (store sv) (getp body ''deviceid'')) ''slaveRequest'' = Inr topic"
    by auto
  from a have h: "engine sv = h" by simp
  have eff: "take 2 (snd (slaveRequest sv body now)) = [Resolve (getp body ''deviceid''), Publish topic ?p]"
    unfolding slaveRequest_published [OF pre] h by (simp add: Let_def split: option.splits)
  note num = parseInt_number [of h "getp body ''mode''"]
  have mode: "getp ?p ''mode'' =
            (if parseInt h (getp body ''mode'') = JNaN \<or> parseInt h (getp body ''mode'') = JNum 0
             then JNum 3 else parseInt h (getp body ''mode''))"
    using num by (auto simp: payload_fields js_or_def)
  have absent: "getp body ''mode'' = JUndef \<longrightarrow> getp ?p ''mode'' = JNum 3"
    by (simp add: payload_fields js_or_def parseInt_absent)
  have given: "\<forall>n. (getp body ''mode'' = JNum (of_int n) \<or> getp body ''mode'' = JStr (int_text n))
                \<and> \<bar>n\<bar> \<le> 9007199254740992
              \<longrightarrow> getp ?p ''mode'' = (if n = 0 then JNum 3 else JNum (of_int n))"
    using parseInt_given [of _ "getp body ''mode''" h] by (auto simp: payload_fields js_or_def)
  have coerced: "\<forall>f \<in> {''channel'', ''range'', ''capacity''}.
              getp ?p f = parseInt h (getp body f)
              \<and> (\<forall>n. (getp body f = JNum (of_int n) \<or> getp body f = JStr (int_text n))
                      \<and> \<bar>n\<bar> \<le> 9007199254740992
                    \<longrightarrow> getp ?p f = JNum (of_int n))"
    using parseInt_given [of _ "getp body ''channel''" h] parseInt_given [of _ "getp body ''range''" h]
      parseInt_given [of _ "getp body ''capacity''" h]
    by (auto simp: payload_fields)
  have numbers: "\<forall>f \<in> {''mode'', ''channel'', ''range'', ''capacity''}.
       getp ?p f = JNaN \<or> (\<exists>q. getp ?p f = JNum q) \<or> (\<exists>b. getp ?p f = JInf b)"
    using num parseInt_number [of h "getp body ''channel''"] parseInt_number [of h "getp body ''range''"]
      parseInt_number [of h "getp body ''capacity''"]
    by (auto simp: payload_fields js_or_def)
  have through: "\<forall>f \<in> {''address_l'', ''address_h'', ''deviceid'', ''sensor_no''}. getp ?p f = getp body f"
    by (simp add: payload_fields)
  from eff mode absent given coerced numbers through payload_slaveid [of h body]
  show "\<exists>payload. take 2 (snd (slaveRequest sv body now)) = [Resolve (getp body ''deviceid''), Publish topic payload]
        \<and> getp payload ''mode'' =
            (if parseInt h (getp body ''mode'') = JNaN \<or> parseInt h (getp body ''mode'') = JNum 0
             then JNum 3 else parseInt h (getp body ''mode''))
        \<and> (getp body ''mode'' = JUndef \<longrightarrow> getp payload ''mode'' = JNum 3)
        \<and> (\<forall>n. (getp body ''mode'' = JNum (of_int n) \<or> getp body ''mode'' = JStr (int_text n))
                \<and> \<bar>n\<bar> \<le> 9007199254740992
              \<longrightarrow> getp payload ''mode'' = (if n = 0 then JNum 3 else JNum (of_int n)))
        \<and> (\<forall>f \<in> {''channel'', ''range'', ''capacity''}.
              getp payload f = parseInt h (getp body f)
              \<and> (\<forall>n. (getp body f = JNum (of_int n) \<or> getp body f = JStr (int_text n))
                      \<and> \<bar>n\<bar> \<le> 9007199254740992
                    \<longrightarrow> getp payload f = JNum (of_int n)))
        \<and> (\<forall>f \<in> {''mode'', ''channel'', ''range'', ''capacity''}.
              getp payload f = JNaN \<or> (\<exists>q. getp payload f = JNum q) \<or> (\<exists>b. getp payload f = JInf b))
        \<and> (\<forall>f \<in> {''address_l'', ''address_h'', ''deviceid'', ''sensor_no''}. getp payload f = getp body f)
        \<and> (''slaveid'' \<in> fst ` set (own_props payload)) = truthy (getp body ''slaveid'')
        \<and> (truthy (getp body ''slaveid'') \<longrightarrow> getp payload ''slaveid'' = getp body ''slaveid'')"
    by (intro exI [of _ ?p]) blast
qed

theorem C8_published_payload_witness:
  "getp body_plain ''mode'' = JNum 2
   \<and> getp body_plain ''slaveid'' = JUndef
   \<and> take 2 (snd (slaveRequest sv_example body_plain 1000)) =
       [Resolve (JStr ''D1''),
        Publish (JStr ''things/T0/slaveRequest'')
          (JObj [(''deviceid'', JStr ''D1''), (''sensor_no'', JStr ''2''), (''mode'', JNum 2), (''channel'', JNum 5),
                 (''address_l'', JNum 16), (''address_h'', JNum 0), (''range'', JNum 100),
                 (''capacity'', JNum 500)])]"
  using C8_published_payload [of body_plain "JStr ''T0''" sv_example "JStr ''things/T0/slaveRequest''"
      host_example 1000]
  by (simp add: example_defs body_plain_def run_defs)

lemma map_of_without: "map_of (filter (\<lambda>kv. fst kv \<noteq> k) kvs) k = None"
  by (induction kvs) auto

text \<open>
  C10. A request whose sensor index is falsy, the number 0 and the empty string among
  them, is answered with status 400 and has no effect, exactly as the same request
  without the field.
\<close>

theorem C10_falsy_sensor_no_rejected:
  "\<not> truthy (getp (JObj kvs) ''sensor_no'') \<longrightarrow>
     slaveRequest sv (JObj kvs) now =
       (Response 400 (JObj [(''success'', JBool False), (''error'', JStr ''Missing deviceid or sensor_no'')]), [])
     \<and> slaveRequest sv (JObj (filter (\<lambda>kv. fst kv \<noteq> ''sensor_no'') kvs)) now = slaveRequest sv (JObj kvs) now"
  by (simp add: slaveRequest_def Let_def map_of_without)

theorem C10_falsy_sensor_no_rejected_witness:
  "slaveRequest sv_example (JObj [(''deviceid'', JStr ''D1''), (''sensor_no'', JNum 0), (''channel'', JNum 5)]) 1000 =
     (Response 400 (JObj [(''success'', JBool False), (''error'', JStr ''Missing deviceid or sensor_no'')]), [])
   \<and> slaveRequest sv_example (JObj [(''deviceid'', JStr ''D1''), (''sensor_no'', JStr ''''), (''channel'', JNum 5)]) 1000 =
     slaveRequest sv_example (JObj [(''deviceid'', JStr ''D1''), (''channel'', JNum 5)]) 1000
   \<and> status_of (fst (slaveRequest sv_example (JObj [(''deviceid'', JStr ''D1''), (''sensor_no'', JNum 1), (''channel'', JNum 5)]) 1000)) = 200"
  using C10_falsy_sensor_no_rejected [of "[(''deviceid'', JStr ''D1''), (''sensor_no'', JNum 0), (''channel'', JNum 5)]" sv_example 1000]
    C10_falsy_sensor_no_rejected [of "[(''deviceid'', JStr ''D1''), (''sensor_no'', JStr ''''), (''channel'', JNum 5)]" sv_example 1000]
  by (simp add: example_defs run_defs)

end
